theory Spec2Isabelle
  imports Complex_Main
begin

section \<open>JavaScript values as the route handlers see them\<close>

text \<open>
  The product store lives in two route modules: the one that serves
  \<^verbatim>\<open>/api/Product\<close> with \<^verbatim>\<open>GET\<close> and \<^verbatim>\<open>POST\<close> (\<^verbatim>\<open>src/unnamed/part_000\<close>), and
  \<^verbatim>\<open>src/app/api/Product/[id]/route.ts\<close> with \<^verbatim>\<open>PUT\<close> and \<^verbatim>\<open>DELETE\<close>. Both work on
  whatever \<^verbatim>\<open>request.json()\<close> yields, so the model keeps the dynamic typing: a value
  is \<^verbatim>\<open>undefined\<close>, \<^verbatim>\<open>null\<close>, a boolean, a number, a string, an array or an object
  with its own properties.

  Modelling conventions.
  \<^item> A JavaScript string is a sequence of UTF-16 code units and \<^verbatim>\<open>.length\<close> counts
    them; a \<open>char\<close> of the model stands for one code unit, so \<open>length\<close> is
    \<^verbatim>\<open>.length\<close>. The strings of the model are those with code units below 256; the
    handlers look at a code unit only in \<^verbatim>\<open>parseInt\<close>, for white space, sign and
    digits.
  \<^item> A number is \<^verbatim>\<open>NaN\<close>, an infinity or a finite value, written as the rational it
    denotes. Identifiers and the id counter are integers; the double representation is
    exact below \<open>2^53\<close>, which the counter (it starts at 3 and grows by one per created
    product) is taken never to reach.
  \<^item> A timestamp is the clock reading behind \<^verbatim>\<open>new Date().toISOString()\<close>, in
    milliseconds; the ISO rendering is not modelled.
\<close>

datatype jsnum = NaN | NegInf | Fin rat | PosInf

datatype jsvalue =
    JUndefined
  | JNull
  | JBool bool
  | JNum jsnum
  | JStr string
  | JArr "jsvalue list"
  | JObj "(string \<times> jsvalue) list"

text \<open>\<^verbatim>\<open>x > k\<close> and \<^verbatim>\<open>x <= k\<close> for a number \<open>x\<close> and a finite constant \<open>k\<close>;
  every comparison with \<^verbatim>\<open>NaN\<close> is false.\<close>

fun num_gt :: "jsnum \<Rightarrow> rat \<Rightarrow> bool" where
  "num_gt NaN k = False"
| "num_gt NegInf k = False"
| "num_gt (Fin x) k = (k < x)"
| "num_gt PosInf k = True"

fun num_le :: "jsnum \<Rightarrow> rat \<Rightarrow> bool" where
  "num_le NaN k = False"
| "num_le NegInf k = True"
| "num_le (Fin x) k = (x \<le> k)"
| "num_le PosInf k = False"

text \<open>\<^verbatim>\<open>!v\<close> is \<open>\<not> truthy v\<close>.\<close>

fun truthy :: "jsvalue \<Rightarrow> bool" where
  "truthy JUndefined = False"
| "truthy JNull = False"
| "truthy (JBool b) = b"
| "truthy (JNum x) = (x \<noteq> NaN \<and> x \<noteq> Fin 0)"
| "truthy (JStr s) = (s \<noteq> [])"
| "truthy (JArr xs) = True"
| "truthy (JObj kvs) = True"

text \<open>\<^verbatim>\<open>typeof v === 'number'\<close>.\<close>

fun typeof_number :: "jsvalue \<Rightarrow> bool" where
  "typeof_number (JNum x) = True"
| "typeof_number v = False"

text \<open>\<^verbatim>\<open>price <= 0\<close>, reached only when \<open>price\<close> is a number.\<close>

fun le_zero :: "jsvalue \<Rightarrow> bool" where
  "le_zero (JNum x) = num_le x 0"
| "le_zero v = False"

text \<open>Reading an own property of a parsed object; a missing key reads as \<^verbatim>\<open>undefined\<close>.\<close>

definition own :: "(string \<times> jsvalue) list \<Rightarrow> string \<Rightarrow> jsvalue" where
  "own kvs k = (case map_of kvs k of None \<Rightarrow> JUndefined | Some v \<Rightarrow> v)"

text \<open>
  \<^verbatim>\<open>const { name, description, price, image } = body\<close>. Destructuring \<^verbatim>\<open>null\<close> or
  \<^verbatim>\<open>undefined\<close> throws (\<open>None\<close>); on a boolean, number, string or array the four names
  are on no prototype and read as \<^verbatim>\<open>undefined\<close>.
\<close>

fun destructure :: "jsvalue \<Rightarrow> (jsvalue \<times> jsvalue \<times> jsvalue \<times> jsvalue) option" where
  "destructure JUndefined = None"
| "destructure JNull = None"
| "destructure (JObj kvs) =
     Some (own kvs ''name'', own kvs ''description'', own kvs ''price'', own kvs ''image'')"
| "destructure v = Some (JUndefined, JUndefined, JUndefined, JUndefined)"

text \<open>
  \<^verbatim>\<open>v.length\<close>: the number of code units of a string, the number of elements of an
  array, the own property of an object, \<^verbatim>\<open>undefined\<close> on a boolean or a number, and a
  TypeError (\<open>None\<close>) on \<^verbatim>\<open>null\<close> and \<^verbatim>\<open>undefined\<close>.
\<close>

fun length_of :: "jsvalue \<Rightarrow> jsvalue option" where
  "length_of JUndefined = None"
| "length_of JNull = None"
| "length_of (JBool b) = Some JUndefined"
| "length_of (JNum x) = Some JUndefined"
| "length_of (JStr s) = Some (JNum (Fin (of_nat (length s))))"
| "length_of (JArr xs) = Some (JNum (Fin (of_nat (length xs))))"
| "length_of (JObj kvs) = Some (own kvs ''length'')"

text \<open>
  The engine's \<^verbatim>\<open>ToNumber\<close> on a string, an array or an object (\<^verbatim>\<open>ToPrimitive\<close> with
  hint number, then the string-to-number conversion) is not part of the repository and
  is a parameter of the model: it yields a number, or \<open>None\<close> when \<^verbatim>\<open>ToPrimitive\<close>
  throws a TypeError. It is consulted only when a request supplies, as name or
  description, an object whose own \<^verbatim>\<open>length\<close> property is itself a string, an array or
  an object.
\<close>

type_synonym engine = "jsvalue \<Rightarrow> jsnum option"

text \<open>\<^verbatim>\<open>v > k\<close> for an arbitrary value \<open>v\<close> and a finite constant \<open>k\<close>; \<open>None\<close> is a
  thrown TypeError.\<close>

fun greater_than :: "engine \<Rightarrow> jsvalue \<Rightarrow> rat \<Rightarrow> bool option" where
  "greater_than E JUndefined k = Some False"
| "greater_than E JNull k = Some (k < 0)"
| "greater_than E (JBool b) k = Some (k < (if b then 1 else 0))"
| "greater_than E (JNum x) k = Some (num_gt x k)"
| "greater_than E v k = map_option (\<lambda>x. num_gt x k) (E v)"

text \<open>\<^verbatim>\<open>v.length > k\<close>.\<close>

definition length_exceeds :: "engine \<Rightarrow> jsvalue \<Rightarrow> rat \<Rightarrow> bool option" where
  "length_exceeds E v k = Option.bind (length_of v) (\<lambda>l. greater_than E l k)"

section \<open>Validation\<close>

text \<open>
  The block under the comment \<^verbatim>\<open>// Validation\<close> is the same text in \<^verbatim>\<open>POST\<close>
  (lines 67 to 94 of its module) and in \<^verbatim>\<open>PUT\<close> (lines 74 to 101 of
  \<^verbatim>\<open>[id]/route.ts\<close>). It either lets the handler go on, returns a 400 response with
  a message, or throws inside the handler's \<^verbatim>\<open>try\<close>.
\<close>

datatype verdict = Valid | Invalid string | Thrown

definition validation :: "engine \<Rightarrow> jsvalue \<Rightarrow> jsvalue \<Rightarrow> jsvalue \<Rightarrow> verdict" where
  "validation E n d p =
     (if \<not> truthy n \<or> \<not> truthy d \<or> \<not> truthy p
      then Invalid ''Name, description, and price are required''
      else if \<not> typeof_number p \<or> le_zero p
      then Invalid ''Price must be a positive number''
      else (case length_exceeds E n 100 of
              None \<Rightarrow> Thrown
            | Some True \<Rightarrow> Invalid ''Name must be 100 characters or less''
            | Some False \<Rightarrow>
                (case length_exceeds E d 500 of
                   None \<Rightarrow> Thrown
                 | Some True \<Rightarrow> Invalid ''Description must be 500 characters or less''
                 | Some False \<Rightarrow> Valid)))"

text \<open>\<^verbatim>\<open>image || undefined\<close>.\<close>

definition or_undefined :: "jsvalue \<Rightarrow> jsvalue" where
  "or_undefined v = (if truthy v then v else JUndefined)"

section \<open>The store and the responses\<close>

record product =
  id_p :: int
  name :: jsvalue
  description :: jsvalue
  price :: jsvalue
  image_p :: jsvalue
  createdAt :: nat
  updatedAt :: nat

text \<open>
  \<^verbatim>\<open>global.globalProducts\<close> is one array shared by both modules (each binds its
  \<^verbatim>\<open>products\<close> to it), and \<^verbatim>\<open>nextId\<close> is the variable of the module of \<^verbatim>\<open>POST\<close>,
  mirrored in \<^verbatim>\<open>global.nextProductId\<close> after every increment.
\<close>

record store =
  products :: "product list"
  nextId :: int

datatype payload =
    ErrorBody string
  | ProductBody product
  | ProductsBody "product list"
  | DeletedBody string product

record response =
  status :: nat
  body :: payload

definition error_response :: "nat \<Rightarrow> string \<Rightarrow> response" where
  "error_response code msg = \<lparr>status = code, body = ErrorBody msg\<rparr>"

text \<open>The module initialisation: two seed records and the counter at 3. The four
  arguments are the four clock readings of the seed literals.\<close>

definition initial_store :: "nat \<Rightarrow> nat \<Rightarrow> nat \<Rightarrow> nat \<Rightarrow> store" where
  "initial_store c1 u1 c2 u2 =
     \<lparr>products =
        [\<lparr>id_p = 1,
          name = JStr ''Classic Cotton T-Shirt'',
          description =
            JStr ''A comfortable, breathable cotton t-shirt perfect for everyday wear.'',
          price = JNum (Fin (2999 / 100)),
          image_p = JStr ''https://via.placeholder.com/300x300?text=T-Shirt'',
          createdAt = c1,
          updatedAt = u1\<rparr>,
         \<lparr>id_p = 2,
          name = JStr ''Denim Jeans'',
          description = JStr ''Premium quality denim jeans with a modern fit.'',
          price = JNum (Fin (7999 / 100)),
          image_p = JStr ''https://via.placeholder.com/300x300?text=Jeans'',
          createdAt = c2,
          updatedAt = u2\<rparr>],
      nextId = 3\<rparr>"

section \<open>The handlers of /api/Product\<close>

definition GET :: "store \<Rightarrow> response \<times> store" where
  "GET s = (\<lparr>status = 200, body = ProductsBody (products s)\<rparr>, s)"

text \<open>
  \<^verbatim>\<open>POST\<close>. The request body is \<open>None\<close> when \<^verbatim>\<open>request.json()\<close> rejects (no JSON);
  \<open>t1\<close> and \<open>t2\<close> are the two clock readings of the object literal. Everything that
  throws is caught by the handler and answered with 500.
\<close>

definition POST :: "engine \<Rightarrow> jsvalue option \<Rightarrow> nat \<Rightarrow> nat \<Rightarrow> store \<Rightarrow> response \<times> store" where
  "POST E request t1 t2 s =
     (case Option.bind request destructure of
        None \<Rightarrow> (error_response 500 ''Failed to create product'', s)
      | Some (n, d, p, i) \<Rightarrow>
          (case validation E n d p of
             Thrown \<Rightarrow> (error_response 500 ''Failed to create product'', s)
           | Invalid msg \<Rightarrow> (error_response 400 msg, s)
           | Valid \<Rightarrow>
               (let newProduct =
                      \<lparr>id_p = nextId s,
                       name = n,
                       description = d,
                       price = p,
                       image_p = or_undefined i,
                       createdAt = t1,
                       updatedAt = t2\<rparr>
                in (\<lparr>status = 201, body = ProductBody newProduct\<rparr>,
                    s\<lparr>products := products s @ [newProduct], nextId := nextId s + 1\<rparr>))))"

section \<open>The handlers of /api/Product/[id]\<close>

text \<open>
  \<^verbatim>\<open>parseInt(idParam)\<close> with no radix: leading white space is skipped, one sign is
  read, a \<^verbatim>\<open>0x\<close> prefix selects radix 16, and the longest run of digits is the value;
  whatever follows is ignored. \<open>None\<close> is \<^verbatim>\<open>NaN\<close>.
\<close>

definition is_ws :: "char \<Rightarrow> bool" where
  "is_ws c = (c \<in> set [CHR 0x09, CHR 0x0A, CHR 0x0B, CHR 0x0C, CHR 0x0D, CHR 0x20, CHR 0xA0])"

definition digit_of :: "char \<Rightarrow> nat option" where
  "digit_of c =
     (let k = (of_char c :: nat)
      in if 48 \<le> k \<and> k \<le> 57 then Some (k - 48)
         else if 97 \<le> k \<and> k \<le> 122 then Some (k - 87)
         else if 65 \<le> k \<and> k \<le> 90 then Some (k - 55)
         else None)"

definition is_digit :: "nat \<Rightarrow> char \<Rightarrow> bool" where
  "is_digit R c = (case digit_of c of None \<Rightarrow> False | Some v \<Rightarrow> v < R)"

definition digits_value :: "nat \<Rightarrow> string \<Rightarrow> nat" where
  "digits_value R Z =
     foldl (\<lambda>acc c. acc * R + (case digit_of c of None \<Rightarrow> 0 | Some v \<Rightarrow> v)) 0 Z"

definition parseInt :: "string \<Rightarrow> int option" where
  "parseInt inputString =
     (let S = dropWhile is_ws inputString;
          sign = (if S \<noteq> [] \<and> hd S = CHR ''-'' then - 1 else 1);
          S1 = (if S \<noteq> [] \<and> (hd S = CHR ''+'' \<or> hd S = CHR ''-'') then tl S else S);
          hex = (take 2 S1 = ''0x'' \<or> take 2 S1 = ''0X'');
          R = (if hex then 16 else 10);
          S2 = (if hex then drop 2 S1 else S1);
          Z = takeWhile (is_digit R) S2
      in if Z = [] then None else Some (sign * int (digits_value R Z)))"

text \<open>\<^verbatim>\<open>findIndex\<close>: the first position that satisfies the predicate; \<open>None\<close> is \<open>-1\<close>.\<close>

fun findIndex :: "('a \<Rightarrow> bool) \<Rightarrow> 'a list \<Rightarrow> nat option" where
  "findIndex P [] = None"
| "findIndex P (x # xs) = (if P x then Some 0 else map_option Suc (findIndex P xs))"

text \<open>
  \<^verbatim>\<open>PUT\<close>. The id is checked first, then the body is read and validated, and only
  then is the record looked up; \<open>t\<close> is the clock reading for \<^verbatim>\<open>updatedAt\<close>.
\<close>

definition PUT :: "engine \<Rightarrow> string \<Rightarrow> jsvalue option \<Rightarrow> nat \<Rightarrow> store \<Rightarrow> response \<times> store" where
  "PUT E idParam request t s =
     (case parseInt idParam of
        None \<Rightarrow> (error_response 400 ''Invalid product ID'', s)
      | Some ident \<Rightarrow>
          (case Option.bind request destructure of
             None \<Rightarrow> (error_response 500 ''Failed to update product'', s)
           | Some (n, d, p, i) \<Rightarrow>
               (case validation E n d p of
                  Thrown \<Rightarrow> (error_response 500 ''Failed to update product'', s)
                | Invalid msg \<Rightarrow> (error_response 400 msg, s)
                | Valid \<Rightarrow>
                    (case findIndex (\<lambda>q. id_p q = ident) (products s) of
                       None \<Rightarrow> (error_response 404 ''Product not found'', s)
                     | Some productIndex \<Rightarrow>
                         (let updatedProduct =
                                (products s ! productIndex)
                                  \<lparr>name := n,
                                   description := d,
                                   price := p,
                                   image_p := or_undefined i,
                                   updatedAt := t\<rparr>
                          in (\<lparr>status = 200, body = ProductBody updatedProduct\<rparr>,
                              s\<lparr>products := (products s)[productIndex := updatedProduct]\<rparr>))))))"

text \<open>\<^verbatim>\<open>DELETE\<close>: \<^verbatim>\<open>splice(productIndex, 1)\<close> takes the record out and returns it.\<close>

definition DELETE :: "string \<Rightarrow> store \<Rightarrow> response \<times> store" where
  "DELETE idParam s =
     (case parseInt idParam of
        None \<Rightarrow> (error_response 400 ''Invalid product ID'', s)
      | Some ident \<Rightarrow>
          (case findIndex (\<lambda>q. id_p q = ident) (products s) of
             None \<Rightarrow> (error_response 404 ''Product not found'', s)
           | Some productIndex \<Rightarrow>
               (let deletedProduct = products s ! productIndex
                in (\<lparr>status = 200,
                     body = DeletedBody ''Product deleted successfully'' deletedProduct\<rparr>,
                    s\<lparr>products :=
                        take productIndex (products s) @ drop (Suc productIndex) (products s)\<rparr>))))"

section \<open>Serving a sequence of requests\<close>

text \<open>
  A request carries what the handler reads from outside the store: the path
  parameter, the body, and the clock readings it takes when it gets that far (a
  handler that fails takes none, and the readings it carries are immaterial). The
  process serves the store-touching part of one handler after the other.
\<close>

datatype request =
    Get
  | Post "jsvalue option" nat nat
  | Put string "jsvalue option" nat
  | Delete string

fun handle :: "engine \<Rightarrow> request \<Rightarrow> store \<Rightarrow> response \<times> store" where
  "handle E Get s = GET s"
| "handle E (Post b t1 t2) s = POST E b t1 t2 s"
| "handle E (Put ip b t) s = PUT E ip b t s"
| "handle E (Delete ip) s = DELETE ip s"

fun run :: "engine \<Rightarrow> request list \<Rightarrow> store \<Rightarrow> response list \<times> store" where
  "run E [] s = ([], s)"
| "run E (r # rs) s =
     (case handle E r s of (a, s1) \<Rightarrow>
        (case run E rs s1 of (as, s2) \<Rightarrow> (a # as, s2)))"

section \<open>Observations on a run\<close>

text \<open>
  What a caller can read off a response: the id a successful \<^verbatim>\<open>POST\<close> (status 201)
  assigned, and the id of the record a successful \<^verbatim>\<open>DELETE\<close> removed.
\<close>

definition created_id :: "response \<Rightarrow> int option" where
  "created_id r =
     (if status r = 201
      then (case body r of ProductBody q \<Rightarrow> Some (id_p q) | _ \<Rightarrow> None)
      else None)"

definition created_ids :: "response list \<Rightarrow> int list" where
  "created_ids rs = List.map_filter created_id rs"

definition deleted_id :: "response \<Rightarrow> int option" where
  "deleted_id r = (case body r of DeletedBody m q \<Rightarrow> Some (id_p q) | _ \<Rightarrow> None)"

text \<open>The clock readings a request carries, in the order the handler takes them.\<close>

fun clock_readings :: "request \<Rightarrow> nat list" where
  "clock_readings (Post b t1 t2) = [t1, t2]"
| "clock_readings (Put ip b t) = [t]"
| "clock_readings r = []"

text \<open>The invariant of the store: ids are pairwise distinct and below the counter.\<close>

definition store_inv :: "store \<Rightarrow> bool" where
  "store_inv s =
     (distinct (map id_p (products s)) \<and> (\<forall>q \<in> set (products s). id_p q < nextId s))"

section \<open>Concrete inputs\<close>

text \<open>
  An engine for the concrete runs below (none of them reaches the conversion), the
  request body of the scenario in the specification, a body with a given name and
  description, a short session, and the store it leaves behind.
\<close>

definition plain_engine :: engine where
  "plain_engine v = Some NaN"

definition example_body :: jsvalue where
  "example_body =
     JObj [(''name'', JStr ''A''), (''description'', JStr ''B''), (''price'', JNum (Fin 10))]"

definition body_with :: "jsvalue \<Rightarrow> jsvalue \<Rightarrow> jsvalue" where
  "body_with n d = JObj [(''name'', n), (''description'', d), (''price'', JNum (Fin 10))]"

definition example_trace :: "request list" where
  "example_trace =
     [Post (Some example_body) 5 6, Delete ''3'', Post (Some example_body) 7 8,
      Put ''4'' (Some example_body) 9, Get]"

definition example_store :: store where
  "example_store = snd (run plain_engine example_trace (initial_store 1 2 3 4))"

section \<open>Facts about the handlers\<close>

lemma findIndex_None_iff: "findIndex P xs = None \<longleftrightarrow> (\<forall>x \<in> set xs. \<not> P x)"
  by (induction xs) auto

lemma findIndex_SomeD:
  "findIndex P xs = Some k \<Longrightarrow> k < length xs \<and> P (xs ! k) \<and> (\<forall>j < k. \<not> P (xs ! j))"
proof (induction xs arbitrary: k)
  case Nil
  then show ?case by simp
next
  case (Cons x xs)
  show ?case
  proof (cases "P x")
    case True
    with Cons.prems show ?thesis by simp
  next
    case False
    with Cons.prems obtain k' where k': "findIndex P xs = Some k'" "k = Suc k'"
      by auto
    from Cons.IH [OF k'(1)] False k'(2) show ?thesis
      by (auto simp: nth_Cons split: nat.splits)
  qed
qed

lemma findIndex_first:
  assumes "ident \<in> f ` set xs"
  shows "\<exists>k. findIndex (\<lambda>q. f q = ident) xs = Some k \<and> k < length xs \<and> f (xs ! k) = ident \<and>
             (\<forall>j < k. f (xs ! j) \<noteq> ident)"
proof -
  from assms have "findIndex (\<lambda>q. f q = ident) xs \<noteq> None"
    by (auto simp: findIndex_None_iff)
  then obtain k where k: "findIndex (\<lambda>q. f q = ident) xs = Some k" by auto
  from findIndex_SomeD [OF k] k show ?thesis by blast
qed

lemma POST_failure:
  assumes "POST E b t1 t2 s = (r, s')" and "status r \<noteq> 201"
  shows "s' = s"
proof (cases "Option.bind b destructure")
  case None
  with assms show ?thesis by (simp add: POST_def)
next
  case (Some f)
  obtain n d p i where f: "f = (n, d, p, i)" by (cases f)
  from assms Some f show ?thesis
    by (cases "validation E n d p") (auto simp: POST_def Let_def)
qed

lemma POST_success:
  assumes "POST E b t1 t2 s = (r, s')" and "status r = 201"
  shows "\<exists>n d p i. Option.bind b destructure = Some (n, d, p, i) \<and> validation E n d p = Valid \<and>
            r = \<lparr>status = 201, body = ProductBody
                  \<lparr>id_p = nextId s, name = n, description = d, price = p,
                   image_p = or_undefined i, createdAt = t1, updatedAt = t2\<rparr>\<rparr> \<and>
            s' = s\<lparr>products := products s @
                  [\<lparr>id_p = nextId s, name = n, description = d, price = p,
                   image_p = or_undefined i, createdAt = t1, updatedAt = t2\<rparr>],
                  nextId := nextId s + 1\<rparr>"
proof (cases "Option.bind b destructure")
  case None
  with assms show ?thesis by (auto simp: POST_def error_response_def)
next
  case (Some f)
  obtain n d p i where f: "f = (n, d, p, i)" by (cases f)
  from assms Some f show ?thesis
    by (cases "validation E n d p") (auto simp: POST_def Let_def error_response_def)
qed

lemma PUT_failure:
  assumes "PUT E ip b t s = (r, s')" and "status r \<noteq> 200"
  shows "s' = s"
proof (cases "parseInt ip")
  case None
  with assms show ?thesis by (simp add: PUT_def)
next
  case ident: (Some ident)
  show ?thesis
  proof (cases "Option.bind b destructure")
    case None
    with assms ident show ?thesis by (simp add: PUT_def)
  next
    case (Some f)
    obtain n d p i where f: "f = (n, d, p, i)" by (cases f)
    from assms ident Some f show ?thesis
      by (cases "validation E n d p")
         (auto simp: PUT_def Let_def split: option.splits)
  qed
qed

lemma PUT_success:
  assumes "PUT E ip b t s = (r, s')" and "status r = 200"
  shows "\<exists>n d p i k ident. parseInt ip = Some ident \<and>
            Option.bind b destructure = Some (n, d, p, i) \<and>
            validation E n d p = Valid \<and>
            findIndex (\<lambda>q. id_p q = ident) (products s) = Some k \<and>
            r = \<lparr>status = 200, body = ProductBody
                  ((products s ! k)\<lparr>name := n, description := d, price := p,
                   image_p := or_undefined i, updatedAt := t\<rparr>)\<rparr> \<and>
            s' = s\<lparr>products := (products s)[k :=
                  (products s ! k)\<lparr>name := n, description := d, price := p,
                   image_p := or_undefined i, updatedAt := t\<rparr>]\<rparr>"
proof (cases "parseInt ip")
  case None
  with assms show ?thesis by (auto simp: PUT_def error_response_def)
next
  case ident: (Some ident)
  show ?thesis
  proof (cases "Option.bind b destructure")
    case None
    with assms ident show ?thesis by (auto simp: PUT_def error_response_def)
  next
    case (Some f)
    obtain n d p i where f: "f = (n, d, p, i)" by (cases f)
    from assms ident Some f show ?thesis
      by (cases "validation E n d p")
         (auto simp: PUT_def Let_def error_response_def split: option.splits)
  qed
qed

lemma DELETE_failure:
  assumes "DELETE ip s = (r, s')" and "status r \<noteq> 200"
  shows "s' = s"
  using assms by (auto simp: DELETE_def Let_def split: option.splits)

lemma DELETE_success:
  assumes "DELETE ip s = (r, s')" and "status r = 200"
  shows "\<exists>k ident. parseInt ip = Some ident \<and>
            findIndex (\<lambda>q. id_p q = ident) (products s) = Some k \<and>
            r = \<lparr>status = 200,
                 body = DeletedBody ''Product deleted successfully'' (products s ! k)\<rparr> \<and>
            s' = s\<lparr>products := take k (products s) @ drop (Suc k) (products s)\<rparr>"
  using assms by (auto simp: DELETE_def Let_def error_response_def split: option.splits)


lemma distinct_remove_nth: "distinct ys \<Longrightarrow> distinct (take k ys @ drop (Suc k) ys)"
proof (cases "k < length ys")
  case True
  assume d: "distinct ys"
  from True have "ys = take k ys @ ys ! k # drop (Suc k) ys"
    by (rule id_take_nth_drop)
  with d have "distinct (take k ys @ ys ! k # drop (Suc k) ys)" by simp
  then show ?thesis by simp
next
  case False
  assume "distinct ys"
  with False show ?thesis by simp
qed

lemma set_remove_nth: "set (take k ys @ drop (Suc k) ys) \<subseteq> set ys"
  using set_take_subset [of k ys] set_drop_subset [of "Suc k" ys] by auto

lemma created_ids_Cons:
  "created_ids (a # as) = (case created_id a of None \<Rightarrow> created_ids as | Some i \<Rightarrow> i # created_ids as)"
  by (simp add: created_ids_def List.map_filter_simps split: option.splits)

lemma created_ids_Nil: "created_ids [] = []"
  by (simp add: created_ids_def List.map_filter_simps)

text \<open>One step.\<close>

lemma POST_step:
  assumes "POST E b t1 t2 s = (a, s')"
  shows "(store_inv s \<longrightarrow> store_inv s') \<and> nextId s \<le> nextId s' \<and>
         (\<forall>i. created_id a = Some i \<longrightarrow> i = nextId s \<and> nextId s' = nextId s + 1) \<and>
         deleted_id a = None \<and>
         (\<forall>x \<in> set (products s'). id_p x \<in> id_p ` set (products s) \<or> nextId s \<le> id_p x) \<and>
         (\<forall>x \<in> set (products s'). updatedAt x \<in> updatedAt ` set (products s) \<or> updatedAt x \<in> {t1, t2})"
proof (cases "status a = 201")
  case True
  from POST_success [OF assms True] show ?thesis
    by (fastforce simp: store_inv_def created_id_def deleted_id_def)
next
  case False
  from POST_failure [OF assms False] False assms show ?thesis
    by (auto simp: created_id_def deleted_id_def POST_def error_response_def Let_def
             split: option.splits verdict.splits)
qed

lemma PUT_step:
  assumes "PUT E ip b t s = (a, s')"
  shows "(store_inv s \<longrightarrow> store_inv s') \<and> nextId s \<le> nextId s' \<and>
         created_id a = None \<and> deleted_id a = None \<and>
         (\<forall>x \<in> set (products s'). id_p x \<in> id_p ` set (products s) \<or> nextId s \<le> id_p x) \<and>
         (\<forall>x \<in> set (products s'). updatedAt x \<in> updatedAt ` set (products s) \<or> updatedAt x \<in> {t})"
proof (cases "status a = 200")
  case True
  from PUT_success [OF assms True] obtain n d p i k ident where
    k: "findIndex (\<lambda>q. id_p q = ident) (products s) = Some k" and
    a: "a = \<lparr>status = 200, body = ProductBody
                  ((products s ! k)\<lparr>name := n, description := d, price := p,
                   image_p := or_undefined i, updatedAt := t\<rparr>)\<rparr>" and
    s': "s' = s\<lparr>products := (products s)[k :=
                  (products s ! k)\<lparr>name := n, description := d, price := p,
                   image_p := or_undefined i, updatedAt := t\<rparr>]\<rparr>"
    by blast
  let ?u = "(products s ! k)\<lparr>name := n, description := d, price := p,
                   image_p := or_undefined i, updatedAt := t\<rparr>"
  from findIndex_SomeD [OF k] have kl: "k < length (products s)" by simp
  have ids: "map id_p ((products s)[k := ?u]) = map id_p (products s)"
    using kl by (simp add: map_update list_update_same_conv)
  have mem: "\<And>x. x \<in> set ((products s)[k := ?u]) \<Longrightarrow> x = ?u \<or> x \<in> set (products s)"
    using set_update_subset_insert [of "products s" k ?u] by auto
  have inv: "store_inv s \<longrightarrow> store_inv s'"
    unfolding store_inv_def
  proof (intro impI conjI ballI)
    assume h: "distinct (map id_p (products s)) \<and> (\<forall>q\<in>set (products s). id_p q < nextId s)"
    show "distinct (map id_p (products s'))" using h ids s' by simp
    fix q assume "q \<in> set (products s')"
    with s' have "q = ?u \<or> q \<in> set (products s)" using mem by simp
    moreover have "products s ! k \<in> set (products s)" using kl by simp
    ultimately show "id_p q < nextId s'" using h s' by auto
  qed
  have idsub: "\<forall>x \<in> set (products s'). id_p x \<in> id_p ` set (products s) \<or> nextId s \<le> id_p x"
  proof
    fix x assume "x \<in> set (products s')"
    then have "id_p x \<in> set (map id_p (products s'))" by simp
    also have "map id_p (products s') = map id_p (products s)" using s' ids by simp
    finally show "id_p x \<in> id_p ` set (products s) \<or> nextId s \<le> id_p x" by simp
  qed
  have upd: "\<forall>x \<in> set (products s'). updatedAt x \<in> updatedAt ` set (products s) \<or> updatedAt x \<in> {t}"
  proof
    fix x assume "x \<in> set (products s')"
    with s' have "x = ?u \<or> x \<in> set (products s)" using mem by simp
    then show "updatedAt x \<in> updatedAt ` set (products s) \<or> updatedAt x \<in> {t}" by auto
  qed
  from inv idsub upd a s' show ?thesis
    by (simp add: created_id_def deleted_id_def)
next
  case False
  from PUT_failure [OF assms False] have eq: "s' = s" .
  have "\<exists>m. body a = ErrorBody m"
    using assms False
    by (auto simp: PUT_def Let_def error_response_def split: option.splits verdict.splits)
  with eq show ?thesis
    by (auto simp: created_id_def deleted_id_def)
qed

lemma DELETE_step:
  assumes "DELETE ip s = (a, s')"
  shows "(store_inv s \<longrightarrow> store_inv s') \<and> nextId s \<le> nextId s' \<and>
         created_id a = None \<and>
         (\<forall>i. deleted_id a = Some i \<longrightarrow> i \<in> id_p ` set (products s)) \<and>
         (\<forall>x \<in> set (products s'). id_p x \<in> id_p ` set (products s) \<or> nextId s \<le> id_p x) \<and>
         (\<forall>x \<in> set (products s'). updatedAt x \<in> updatedAt ` set (products s))"
proof (cases "status a = 200")
  case True
  from DELETE_success [OF assms True] obtain k ident where
    k: "findIndex (\<lambda>q. id_p q = ident) (products s) = Some k" and
    a: "a = \<lparr>status = 200,
                 body = DeletedBody ''Product deleted successfully'' (products s ! k)\<rparr>" and
    s': "s' = s\<lparr>products := take k (products s) @ drop (Suc k) (products s)\<rparr>"
    by blast
  from findIndex_SomeD [OF k] have kl: "k < length (products s)" by simp
  have sub: "set (products s') \<subseteq> set (products s)"
    using s' set_remove_nth [of k "products s"] by simp
  have "distinct (map id_p (products s)) \<Longrightarrow> distinct (map id_p (products s'))"
    using s' distinct_remove_nth [of "map id_p (products s)" k]
    by (simp add: take_map drop_map)
  with sub s' have inv: "store_inv s \<longrightarrow> store_inv s'"
    by (auto simp: store_inv_def)
  from inv sub a s' kl show ?thesis
    by (auto simp: created_id_def deleted_id_def)
next
  case False
  from DELETE_failure [OF assms False] have eq: "s' = s" .
  have "\<exists>m. body a = ErrorBody m"
    using assms False
    by (auto simp: DELETE_def Let_def error_response_def split: option.splits)
  with eq show ?thesis
    by (auto simp: created_id_def deleted_id_def)
qed

lemma handle_step:
  assumes "handle E q s = (a, s')"
  shows "(store_inv s \<longrightarrow> store_inv s') \<and> nextId s \<le> nextId s' \<and>
         (\<forall>i. created_id a = Some i \<longrightarrow> i = nextId s \<and> nextId s' = nextId s + 1) \<and>
         (\<forall>i. deleted_id a = Some i \<longrightarrow> i \<in> id_p ` set (products s)) \<and>
         (\<forall>x \<in> set (products s'). id_p x \<in> id_p ` set (products s) \<or> nextId s \<le> id_p x) \<and>
         (\<forall>x \<in> set (products s').
            updatedAt x \<in> updatedAt ` set (products s) \<or> updatedAt x \<in> set (clock_readings q))"
proof (cases q)
  case Get
  with assms show ?thesis by (auto simp: GET_def created_id_def deleted_id_def)
next
  case (Post b t1 t2)
  with assms have "POST E b t1 t2 s = (a, s')" by simp
  from POST_step [OF this] Post show ?thesis by simp
next
  case (Put ip b t)
  with assms have "PUT E ip b t s = (a, s')" by simp
  from PUT_step [OF this] Put show ?thesis by simp
next
  case (Delete ip)
  with assms have "DELETE ip s = (a, s')" by simp
  from DELETE_step [OF this] Delete show ?thesis by simp
qed


text \<open>Many steps.\<close>

lemma run_Cons_elim:
  assumes "run E (q # rs) s = (resps, s')"
  obtains a s1 as where "handle E q s = (a, s1)" and "run E rs s1 = (as, s')" and "resps = a # as"
  using assms by (auto split: prod.splits)

lemma run_step:
  assumes "run E rs s = (resps, s')"
  shows "(store_inv s \<longrightarrow> store_inv s') \<and> nextId s \<le> nextId s' \<and>
         (\<forall>i \<in> set (created_ids resps). nextId s \<le> i \<and> i < nextId s') \<and>
         sorted_wrt (<) (created_ids resps) \<and>
         (\<forall>x \<in> set (products s'). id_p x \<in> id_p ` set (products s) \<or> nextId s \<le> id_p x) \<and>
         (\<forall>x \<in> set (products s').
            updatedAt x \<in> updatedAt ` set (products s) \<or>
            updatedAt x \<in> set (concat (map clock_readings rs)))"
  using assms
proof (induction rs arbitrary: s resps)
  case Nil
  then show ?case by (simp add: created_ids_Nil)
next
  case (Cons q rs)
  from Cons.prems obtain a s1 as where
    h: "handle E q s = (a, s1)" and r: "run E rs s1 = (as, s')" and resps: "resps = a # as"
    by (rule run_Cons_elim)
  note H = handle_step [OF h]
  note IH = Cons.IH [OF r]
  have inv: "store_inv s \<longrightarrow> store_inv s'" using H IH by blast
  have mono: "nextId s \<le> nextId s'" using H IH by linarith
  have rest: "\<forall>i \<in> set (created_ids as). nextId s \<le> i \<and> i < nextId s'"
    using H IH by fastforce
  have cr: "(\<forall>i \<in> set (created_ids resps). nextId s \<le> i \<and> i < nextId s') \<and>
            sorted_wrt (<) (created_ids resps)"
  proof (cases "created_id a")
    case None
    with resps rest IH show ?thesis by (simp add: created_ids_Cons)
  next
    case (Some i)
    with H have i: "i = nextId s" "nextId s1 = nextId s + 1" by auto
    from IH have "\<forall>j \<in> set (created_ids as). nextId s1 \<le> j" by blast
    with i have "\<forall>j \<in> set (created_ids as). i < j" by auto
    moreover from i mono IH have "i < nextId s'" by linarith
    ultimately show ?thesis using Some resps rest IH i
      by (simp add: created_ids_Cons)
  qed
  have ids: "\<forall>x \<in> set (products s'). id_p x \<in> id_p ` set (products s) \<or> nextId s \<le> id_p x"
  proof
    fix x assume "x \<in> set (products s')"
    with IH have "id_p x \<in> id_p ` set (products s1) \<or> nextId s1 \<le> id_p x" by blast
    then show "id_p x \<in> id_p ` set (products s) \<or> nextId s \<le> id_p x"
    proof
      assume "id_p x \<in> id_p ` set (products s1)"
      then obtain y where "y \<in> set (products s1)" "id_p x = id_p y" by auto
      with H show ?thesis by metis
    next
      assume "nextId s1 \<le> id_p x"
      with H show ?thesis by linarith
    qed
  qed
  have upd: "\<forall>x \<in> set (products s').
            updatedAt x \<in> updatedAt ` set (products s) \<or>
            updatedAt x \<in> set (concat (map clock_readings (q # rs)))"
  proof
    fix x assume "x \<in> set (products s')"
    with IH have "updatedAt x \<in> updatedAt ` set (products s1) \<or>
                  updatedAt x \<in> set (concat (map clock_readings rs))" by blast
    then show "updatedAt x \<in> updatedAt ` set (products s) \<or>
            updatedAt x \<in> set (concat (map clock_readings (q # rs)))"
    proof
      assume "updatedAt x \<in> updatedAt ` set (products s1)"
      then obtain y where "y \<in> set (products s1)" "updatedAt x = updatedAt y" by auto
      with H have "updatedAt x \<in> updatedAt ` set (products s) \<or>
                   updatedAt x \<in> set (clock_readings q)" by metis
      then show ?thesis by auto
    next
      assume "updatedAt x \<in> set (concat (map clock_readings rs))"
      then show ?thesis by simp
    qed
  qed
  from inv mono cr ids upd show ?case by blast
qed

lemma run_never_reassigned:
  assumes "run E rs s = (resps, s')" and "store_inv s"
    and "resps = xs @ r # ys" and "deleted_id r = Some i"
  shows "i \<notin> set (created_ids ys)"
  using assms
proof (induction rs arbitrary: s resps xs)
  case Nil
  then show ?case by simp
next
  case (Cons q rs)
  from Cons.prems(1) obtain a s1 as where
    h: "handle E q s = (a, s1)" and r: "run E rs s1 = (as, s')" and resps: "resps = a # as"
    by (rule run_Cons_elim)
  note H = handle_step [OF h]
  show ?case
  proof (cases xs)
    case Nil
    with Cons.prems(3) resps have ar: "a = r" and as: "as = ys" by simp_all
    from H ar Cons.prems(4) have "i \<in> id_p ` set (products s)" by blast
    with Cons.prems(2) have "i < nextId s" by (auto simp: store_inv_def)
    with H have "i < nextId s1" by linarith
    moreover from run_step [OF r] as have "\<forall>j \<in> set (created_ids ys). nextId s1 \<le> j" by blast
    ultimately show ?thesis by auto
  next
    case (Cons x xs')
    with Cons.prems(3) resps have "as = xs' @ r # ys" by simp
    moreover from H Cons.prems(2) have "store_inv s1" by blast
    ultimately show ?thesis using Cons.IH [OF r] Cons.prems(4) by blast
  qed
qed

lemma initial_store_inv: "store_inv (initial_store c1 u1 c2 u2)"
  by (simp add: store_inv_def initial_store_def)

lemma initial_store_ids: "map id_p (products (initial_store c1 u1 c2 u2)) = [1, 2]"
  by (simp add: initial_store_def)

lemma initial_store_nextId: "nextId (initial_store c1 u1 c2 u2) = 3"
  by (simp add: initial_store_def)


section \<open>Facts about validation and the outcomes of the handlers\<close>

lemma positive_price:
  assumes "num_gt x 0"
  shows "truthy (JNum x) \<and> typeof_number (JNum x) \<and> \<not> le_zero (JNum x)"
  using assms by (cases x) auto

lemma validation_outcome:
  assumes "truthy n" and "truthy d" and "num_gt x 0"
  shows "validation E n d (JNum x) =
           (case length_exceeds E n 100 of
              None \<Rightarrow> Thrown
            | Some True \<Rightarrow> Invalid ''Name must be 100 characters or less''
            | Some False \<Rightarrow>
                (case length_exceeds E d 500 of
                   None \<Rightarrow> Thrown
                 | Some True \<Rightarrow> Invalid ''Description must be 500 characters or less''
                 | Some False \<Rightarrow> Valid))"
  using assms positive_price [OF assms(3)] by (simp add: validation_def)

lemma length_exceeds_JStr: "length_exceeds E (JStr s) k = Some (k < of_nat (length s))"
  by (simp add: length_exceeds_def)

lemma length_exceeds_JArr: "length_exceeds E (JArr xs) k = Some (k < of_nat (length xs))"
  by (simp add: length_exceeds_def)

lemma length_exceeds_JNum: "length_exceeds E (JNum y) k = Some False"
  by (simp add: length_exceeds_def)

lemma length_exceeds_JBool: "length_exceeds E (JBool c) k = Some False"
  by (simp add: length_exceeds_def)

lemma length_exceeds_JObj:
  "length_exceeds E (JObj kvs) k =
     (case map_of kvs ''length'' of
        None \<Rightarrow> Some False
      | Some v \<Rightarrow> greater_than E v k)"
  by (simp add: length_exceeds_def own_def split: option.splits)

lemma POST_valid:
  assumes "destructure b = Some (n, d, p, i)" and "validation E n d p = Valid"
  shows "POST E (Some b) t1 t2 s =
           (\<lparr>status = 201, body = ProductBody
               \<lparr>id_p = nextId s, name = n, description = d, price = p,
                image_p = or_undefined i, createdAt = t1, updatedAt = t2\<rparr>\<rparr>,
            s\<lparr>products := products s @
               [\<lparr>id_p = nextId s, name = n, description = d, price = p,
                 image_p = or_undefined i, createdAt = t1, updatedAt = t2\<rparr>],
              nextId := nextId s + 1\<rparr>)"
  using assms by (simp add: POST_def Let_def)

lemma POST_invalid:
  assumes "destructure b = Some (n, d, p, i)" and "validation E n d p = Invalid msg"
  shows "POST E (Some b) t1 t2 s = (\<lparr>status = 400, body = ErrorBody msg\<rparr>, s)"
  using assms by (simp add: POST_def error_response_def)

lemma PUT_invalid:
  assumes "parseInt ip = Some ident" and "destructure b = Some (n, d, p, i)"
    and "validation E n d p = Invalid msg"
  shows "PUT E ip (Some b) t s = (\<lparr>status = 400, body = ErrorBody msg\<rparr>, s)"
  using assms by (simp add: PUT_def error_response_def)

lemma unparsable_id_rejected:
  assumes "parseInt ip = None"
  shows "PUT E ip b t s = (\<lparr>status = 400, body = ErrorBody ''Invalid product ID''\<rparr>, s) \<and>
         DELETE ip s = (\<lparr>status = 400, body = ErrorBody ''Invalid product ID''\<rparr>, s)"
  using assms by (simp add: PUT_def DELETE_def error_response_def)

lemma PUT_valid_unknown:
  assumes "parseInt ip = Some ident" and "destructure b = Some (n, d, p, i)"
    and "validation E n d p = Valid" and "ident \<notin> id_p ` set (products s)"
  shows "PUT E ip (Some b) t s = (\<lparr>status = 404, body = ErrorBody ''Product not found''\<rparr>, s)"
proof -
  from assms(4) have "findIndex (\<lambda>q. id_p q = ident) (products s) = None"
    by (auto simp: findIndex_None_iff)
  with assms(1-3) show ?thesis by (simp add: PUT_def error_response_def)
qed

lemma PUT_valid:
  assumes "parseInt ip = Some ident" and "destructure b = Some (n, d, p, i)"
    and "validation E n d p = Valid"
  shows "PUT E ip (Some b) t s =
           (case findIndex (\<lambda>q. id_p q = ident) (products s) of
              None \<Rightarrow> (\<lparr>status = 404, body = ErrorBody ''Product not found''\<rparr>, s)
            | Some k \<Rightarrow>
                (\<lparr>status = 200, body = ProductBody
                    ((products s ! k)\<lparr>name := n, description := d, price := p,
                       image_p := or_undefined i, updatedAt := t\<rparr>)\<rparr>,
                 s\<lparr>products := (products s)[k :=
                    (products s ! k)\<lparr>name := n, description := d, price := p,
                       image_p := or_undefined i, updatedAt := t\<rparr>]\<rparr>))"
  using assms by (simp add: PUT_def Let_def error_response_def split: option.splits)

lemma destructure_body_with:
  "destructure (body_with n d) = Some (n, d, JNum (Fin 10), JUndefined)"
  by (simp add: body_with_def own_def)

lemma destructure_example_body:
  "destructure example_body = Some (JStr ''A'', JStr ''B'', JNum (Fin 10), JUndefined)"
  by (simp add: example_body_def own_def)

lemma validation_example_body: "validation E (JStr ''A'') (JStr ''B'') (JNum (Fin 10)) = Valid"
  by (simp add: validation_def length_exceeds_def)

lemma findIndex_distinct_filter:
  assumes "distinct (map f xs)" and "findIndex (\<lambda>x. f x = i) xs = Some k"
  shows "take k xs @ drop (Suc k) xs = filter (\<lambda>x. f x \<noteq> i) xs \<and>
         filter (\<lambda>x. f x = i) xs = [xs ! k]"
  using assms
proof (induction xs arbitrary: k)
  case Nil
  then show ?case by simp
next
  case (Cons x xs)
  show ?case
  proof (cases "f x = i")
    case True
    with Cons.prems(2) have k: "k = 0" by simp
    from Cons.prems(1) have "f x \<notin> f ` set xs" by simp
    then have "\<forall>y \<in> set xs. f y \<noteq> f x" by (metis imageI)
    with True have "\<forall>y \<in> set xs. f y \<noteq> i" by simp
    then have "filter (\<lambda>x. f x \<noteq> i) xs = xs" "filter (\<lambda>x. f x = i) xs = []"
      by (simp_all add: filter_empty_conv)
    with True k show ?thesis by simp
  next
    case False
    with Cons.prems(2) obtain k' where k': "findIndex (\<lambda>x. f x = i) xs = Some k'" "k = Suc k'"
      by auto
    from Cons.prems(1) have "distinct (map f xs)" by simp
    from Cons.IH [OF this k'(1)] False k'(2) show ?thesis by simp
  qed
qed


section \<open>Identifiers\<close>

text \<open>
  Claim C1. After any sequence of requests served from the freshly initialised store,
  the ids in the collection are pairwise distinct; the counter is above every id ever
  assigned (the seed ids and the ids returned by successful creates); the ids
  assigned, seeds first, form a strictly increasing sequence, so each successful create
  returns an id above every earlier one; and an id removed by a successful delete is
  not returned by any later create.
\<close>

theorem C1_ids_never_reused:
  assumes "run E rs (initial_store c1 u1 c2 u2) = (resps, s)"
  shows "distinct (map id_p (products s)) \<and>
         (\<forall>i \<in> set (map id_p (products (initial_store c1 u1 c2 u2)) @ created_ids resps).
            i < nextId s) \<and>
         sorted_wrt (<) (map id_p (products (initial_store c1 u1 c2 u2)) @ created_ids resps) \<and>
         (\<forall>xs r ys i. resps = xs @ r # ys \<and> deleted_id r = Some i \<longrightarrow>
            i \<notin> set (created_ids ys))"
proof -
  note R = run_step [OF assms]
  have inv: "store_inv s" using R initial_store_inv by blast
  have three: "3 \<le> nextId s" using R by (simp add: initial_store_nextId)
  have cr: "\<forall>i \<in> set (created_ids resps). 3 \<le> i \<and> i < nextId s"
    using R by (simp add: initial_store_nextId)
  have a: "distinct (map id_p (products s))" using inv by (simp add: store_inv_def)
  have b: "\<forall>i \<in> set (map id_p (products (initial_store c1 u1 c2 u2)) @ created_ids resps).
             i < nextId s"
    using three cr by (auto simp: initial_store_ids)
  have c: "sorted_wrt (<) (map id_p (products (initial_store c1 u1 c2 u2)) @ created_ids resps)"
    using R cr by (auto simp: sorted_wrt_append initial_store_ids)
  have d: "\<forall>xs r ys i. resps = xs @ r # ys \<and> deleted_id r = Some i \<longrightarrow>
             i \<notin> set (created_ids ys)"
    using run_never_reassigned [OF assms initial_store_inv] by blast
  from a b c d show ?thesis by blast
qed

text \<open>
  The session of \<open>example_trace\<close>: the creates return 3 and 4, the delete in between
  removes 3, and 3 is not handed out again.
\<close>

theorem C1_witness:
  "distinct (map id_p (products (snd (run plain_engine example_trace (initial_store 1 2 3 4))))) \<and>
   created_ids (fst (run plain_engine example_trace (initial_store 1 2 3 4))) = [3, 4] \<and>
   nextId (snd (run plain_engine example_trace (initial_store 1 2 3 4))) = 5 \<and>
   deleted_id (fst (run plain_engine example_trace (initial_store 1 2 3 4)) ! 1) = Some 3 \<and>
   3 \<notin> set (created_ids (drop 2 (fst (run plain_engine example_trace (initial_store 1 2 3 4)))))"
proof -
  let ?out = "run plain_engine example_trace (initial_store 1 2 3 4)"
  have h: "?out = (fst ?out, snd ?out)" by simp
  have len: "length (fst ?out) = 5" by code_simp
  have del: "deleted_id (fst ?out ! 1) = Some 3" by code_simp
  have cr: "created_ids (fst ?out) = [3, 4]" by code_simp
  have nx: "nextId (snd ?out) = 5" by code_simp
  have split: "fst ?out = take 1 (fst ?out) @ (fst ?out ! 1) # drop 2 (fst ?out)"
    using id_take_nth_drop [of 1 "fst ?out"] len by (simp add: numeral_2_eq_2)
  from C1_ids_never_reused [OF h] split del cr nx show ?thesis by blast
qed

section \<open>The creation scenario\<close>

text \<open>
  Claim C3, as stated, fails. The store is never empty with a fresh counter: it starts
  with two seed records and the counter at 3, so on the store emptied by deleting both
  seeds the scenario's create returns id 3, not 1; and \<open>createdAt\<close> and \<open>updatedAt\<close>
  are two clock readings, here 5 and 6.
\<close>

theorem C3_counterexample:
  "products (snd (run plain_engine [Delete ''1'', Delete ''2''] (initial_store 1 2 3 4))) = [] \<and>
   fst (POST plain_engine (Some example_body) 5 6
          (snd (run plain_engine [Delete ''1'', Delete ''2''] (initial_store 1 2 3 4)))) =
     \<lparr>status = 201, body = ProductBody
        \<lparr>id_p = 3, name = JStr ''A'', description = JStr ''B'', price = JNum (Fin 10),
         image_p = JUndefined, createdAt = 5, updatedAt = 6\<rparr>\<rparr> \<and>
   created_id (fst (POST plain_engine (Some example_body) 5 6
          (snd (run plain_engine [Delete ''1'', Delete ''2''] (initial_store 1 2 3 4))))) \<noteq> Some 1"
  by code_simp

text \<open>
  Claim C3, amended. On every store reached from the initial one, whose counter is 3
  at the start and at least 3 ever after, the scenario's create returns a product with
  the counter's value as id, name "A", description "B", price 10, no image, and the
  call's two clock readings as \<open>createdAt\<close> and \<open>updatedAt\<close>; a second create of
  any body that passes validation returns the next id.
\<close>

theorem C3_create_scenario:
  assumes "run E rs (initial_store c1 u1 c2 u2) = (resps, s)"
    and "destructure b = Some (n, d, p, i)" and "validation E n d p = Valid"
  shows "nextId (initial_store c1 u1 c2 u2) = 3 \<and> 3 \<le> nextId s \<and>
         POST E (Some example_body) t1 t2 s =
           (\<lparr>status = 201, body = ProductBody
               \<lparr>id_p = nextId s, name = JStr ''A'', description = JStr ''B'',
                price = JNum (Fin 10), image_p = JUndefined,
                createdAt = t1, updatedAt = t2\<rparr>\<rparr>,
            s\<lparr>products := products s @
               [\<lparr>id_p = nextId s, name = JStr ''A'', description = JStr ''B'',
                 price = JNum (Fin 10), image_p = JUndefined,
                 createdAt = t1, updatedAt = t2\<rparr>],
              nextId := nextId s + 1\<rparr>) \<and>
         created_id (fst (POST E (Some b) t3 t4 (snd (POST E (Some example_body) t1 t2 s)))) =
           Some (nextId s + 1)"
proof -
  from run_step [OF assms(1)] have three: "3 \<le> nextId s"
    by (simp add: initial_store_nextId)
  have first: "POST E (Some example_body) t1 t2 s =
           (\<lparr>status = 201, body = ProductBody
               \<lparr>id_p = nextId s, name = JStr ''A'', description = JStr ''B'',
                price = JNum (Fin 10), image_p = JUndefined,
                createdAt = t1, updatedAt = t2\<rparr>\<rparr>,
            s\<lparr>products := products s @
               [\<lparr>id_p = nextId s, name = JStr ''A'', description = JStr ''B'',
                 price = JNum (Fin 10), image_p = JUndefined,
                 createdAt = t1, updatedAt = t2\<rparr>],
              nextId := nextId s + 1\<rparr>)"
    using POST_valid [OF destructure_example_body validation_example_body, of E t1 t2 s]
    by (simp add: or_undefined_def)
  have second: "created_id (fst (POST E (Some b) t3 t4 (snd (POST E (Some example_body) t1 t2 s)))) =
           Some (nextId s + 1)"
    by (simp add: first POST_valid [OF assms(2,3)] created_id_def)
  from three first second show ?thesis by (simp add: initial_store_nextId)
qed

text \<open>
  On the store emptied by deleting both seeds the two creates return 3 and 4.
\<close>

theorem C3_witness:
  "nextId (snd (run plain_engine [Delete ''1'', Delete ''2''] (initial_store 1 2 3 4))) = 3 \<and>
   created_id (fst (POST plain_engine (Some example_body) 5 6
          (snd (run plain_engine [Delete ''1'', Delete ''2''] (initial_store 1 2 3 4))))) = Some 3 \<and>
   created_id (fst (POST plain_engine (Some (body_with (JStr ''C'') (JStr ''D''))) 7 8
      (snd (POST plain_engine (Some example_body) 5 6
          (snd (run plain_engine [Delete ''1'', Delete ''2''] (initial_store 1 2 3 4))))))) = Some 4"
proof -
  let ?out = "run plain_engine [Delete ''1'', Delete ''2''] (initial_store 1 2 3 4)"
  have h: "?out = (fst ?out, snd ?out)" by simp
  have v: "validation plain_engine (JStr ''C'') (JStr ''D'') (JNum (Fin 10)) = Valid"
    by code_simp
  have n: "nextId (snd ?out) = 3" by code_simp
  have first: "created_id (fst (POST plain_engine (Some example_body) 5 6 (snd ?out))) = Some 3"
    by code_simp
  from n have e: "nextId (snd ?out) + 1 = 4" by arith
  from C3_create_scenario [OF h destructure_body_with v, of 5 6 7 8]
  have "created_id (fst (POST plain_engine (Some (body_with (JStr ''C'') (JStr ''D''))) 7 8
          (snd (POST plain_engine (Some example_body) 5 6 (snd ?out))))) =
        Some (nextId (snd ?out) + 1)"
    by blast
  then have "created_id (fst (POST plain_engine (Some (body_with (JStr ''C'') (JStr ''D''))) 7 8
          (snd (POST plain_engine (Some example_body) 5 6 (snd ?out))))) = Some 4"
    unfolding e .
  with n first show ?thesis by blast
qed

section \<open>Update of an unknown id\<close>

text \<open>
  Claim C4, as stated, fails: the body is validated before the record is looked up,
  so an update of the unknown id 99 with an empty object is answered with 400, not 404.
\<close>

theorem C4_counterexample:
  "parseInt ''99'' = Some 99 \<and>
   99 \<notin> set (map id_p (products (initial_store 1 2 3 4))) \<and>
   PUT plain_engine ''99'' (Some (JObj [])) 5 (initial_store 1 2 3 4) =
     (\<lparr>status = 400, body = ErrorBody ''Name, description, and price are required''\<rparr>,
      initial_store 1 2 3 4)"
  by code_simp

text \<open>
  Claim C4, amended. When the id parameter parses to an integer that no record has,
  an update whose body passes validation is answered with 404 "Product not found",
  and one whose body fails validation with that 400 validation error; the store is
  unchanged either way.
\<close>

theorem C4_update_unknown_id:
  assumes "parseInt ip = Some ident" and "ident \<notin> id_p ` set (products s)"
    and "destructure b = Some (n, d, p, i)" and "validation E n d p = Valid"
    and "destructure b' = Some (n', d', p', i')" and "validation E n' d' p' = Invalid msg"
  shows "PUT E ip (Some b) t s =
           (\<lparr>status = 404, body = ErrorBody ''Product not found''\<rparr>, s) \<and>
         PUT E ip (Some b') t s = (\<lparr>status = 400, body = ErrorBody msg\<rparr>, s)"
  using PUT_valid_unknown [OF assms(1,3,4,2)] PUT_invalid [OF assms(1,5,6)] by simp

text \<open>
  Both cases on the initial store, for the id 99.
\<close>

theorem C4_witness:
  "PUT plain_engine ''99'' (Some example_body) 5 (initial_store 1 2 3 4) =
     (\<lparr>status = 404, body = ErrorBody ''Product not found''\<rparr>, initial_store 1 2 3 4) \<and>
   PUT plain_engine ''99'' (Some (JObj [])) 5 (initial_store 1 2 3 4) =
     (\<lparr>status = 400, body = ErrorBody ''Name, description, and price are required''\<rparr>,
      initial_store 1 2 3 4)"
proof -
  have p: "parseInt ''99'' = Some 99" by code_simp
  have m: "99 \<notin> id_p ` set (products (initial_store 1 2 3 4))"
    by (simp add: initial_store_def)
  have d': "destructure (JObj []) = Some (JUndefined, JUndefined, JUndefined, JUndefined)"
    by (simp add: own_def)
  have v': "validation plain_engine JUndefined JUndefined JUndefined =
              Invalid ''Name, description, and price are required''"
    by (simp add: validation_def)
  from C4_update_unknown_id
         [OF p m destructure_example_body validation_example_body d' v', of 5]
  show ?thesis .
qed

section \<open>Length boundaries\<close>

text \<open>
  Claim C5. With a positive price, on any store: a create with a name of exactly 100
  and a description of exactly 500 code units answers 201 and appends the record under
  the counter's value; a name of 101 code units (under any non-empty description) is
  rejected with the 400 message about the name's length, and a description of 501
  (under any non-empty name of at most 100) with the one about the description's
  length, the store unchanged. An update with any id parameter that
  parses is rejected in the same two cases with the same messages; with the name of
  100 and the description of 500 it passes validation, so it answers 200 and replaces
  the first record that has the id when there is one, and 404 when there is none.
\<close>

theorem C5_length_boundaries:
  assumes "length n100 = 100" and "length d500 = 500"
    and "length n101 = 101" and "length d501 = 501"
    and "num_gt x 0"
    and "destructure b_ok = Some (JStr n100, JStr d500, JNum x, i)"
    and "destructure b_name = Some (JStr n101, JStr dv, JNum x, i)"
    and "destructure b_desc = Some (JStr nv, JStr d501, JNum x, i)"
    and "dv \<noteq> []" and "nv \<noteq> []" and "length nv \<le> 100"
  shows "POST E (Some b_ok) t1 t2 s =
           (\<lparr>status = 201, body = ProductBody
               \<lparr>id_p = nextId s, name = JStr n100, description = JStr d500, price = JNum x,
                image_p = or_undefined i, createdAt = t1, updatedAt = t2\<rparr>\<rparr>,
            s\<lparr>products := products s @
               [\<lparr>id_p = nextId s, name = JStr n100, description = JStr d500, price = JNum x,
                 image_p = or_undefined i, createdAt = t1, updatedAt = t2\<rparr>],
              nextId := nextId s + 1\<rparr>) \<and>
         POST E (Some b_name) t1 t2 s =
           (\<lparr>status = 400, body = ErrorBody ''Name must be 100 characters or less''\<rparr>, s) \<and>
         POST E (Some b_desc) t1 t2 s =
           (\<lparr>status = 400, body = ErrorBody ''Description must be 500 characters or less''\<rparr>, s) \<and>
         (\<forall>ip ident. parseInt ip = Some ident \<longrightarrow>
            PUT E ip (Some b_name) t s =
              (\<lparr>status = 400, body = ErrorBody ''Name must be 100 characters or less''\<rparr>, s) \<and>
            PUT E ip (Some b_desc) t s =
              (\<lparr>status = 400, body = ErrorBody ''Description must be 500 characters or less''\<rparr>,
               s) \<and>
            (ident \<notin> id_p ` set (products s) \<longrightarrow>
               PUT E ip (Some b_ok) t s =
                 (\<lparr>status = 404, body = ErrorBody ''Product not found''\<rparr>, s)) \<and>
            (ident \<in> id_p ` set (products s) \<longrightarrow>
               (\<exists>k < length (products s).
                  id_p (products s ! k) = ident \<and>
                  (\<forall>j < k. id_p (products s ! j) \<noteq> ident) \<and>
                  PUT E ip (Some b_ok) t s =
                    (\<lparr>status = 200, body = ProductBody
                        ((products s ! k)\<lparr>name := JStr n100, description := JStr d500,
                           price := JNum x, image_p := or_undefined i, updatedAt := t\<rparr>)\<rparr>,
                     s\<lparr>products := (products s)[k :=
                        (products s ! k)\<lparr>name := JStr n100, description := JStr d500,
                           price := JNum x, image_p := or_undefined i, updatedAt := t\<rparr>]\<rparr>))))"
proof -
  from assms(1) have tn: "truthy (JStr n100)" by auto
  from assms(2) have td: "truthy (JStr d500)" by auto
  from assms(3) have tn': "truthy (JStr n101)" by auto
  from assms(4) have td': "truthy (JStr d501)" by auto
  have ok: "validation E (JStr n100) (JStr d500) (JNum x) = Valid"
    by (simp add: validation_outcome [OF tn td assms(5)] length_exceeds_JStr assms(1,2))
  from assms(9) have tdv: "truthy (JStr dv)" by simp
  from assms(10) have tnv: "truthy (JStr nv)" by simp
  have long_n: "validation E (JStr n101) (JStr dv) (JNum x) =
                  Invalid ''Name must be 100 characters or less''"
    by (simp add: validation_outcome [OF tn' tdv assms(5)] length_exceeds_JStr assms(3))
  from assms(11) have short: "\<not> 100 < length nv" by simp
  have long_d: "validation E (JStr nv) (JStr d501) (JNum x) =
                  Invalid ''Description must be 500 characters or less''"
    by (simp add: validation_outcome [OF tnv td' assms(5)] length_exceeds_JStr assms(4) short)
  note create = POST_valid [OF assms(6) ok, of t1 t2 s]
    and create_n = POST_invalid [OF assms(7) long_n, of t1 t2 s]
    and create_d = POST_invalid [OF assms(8) long_d, of t1 t2 s]
  have update: "\<forall>ip ident. parseInt ip = Some ident \<longrightarrow>
            PUT E ip (Some b_name) t s =
              (\<lparr>status = 400, body = ErrorBody ''Name must be 100 characters or less''\<rparr>, s) \<and>
            PUT E ip (Some b_desc) t s =
              (\<lparr>status = 400, body = ErrorBody ''Description must be 500 characters or less''\<rparr>,
               s) \<and>
            (ident \<notin> id_p ` set (products s) \<longrightarrow>
               PUT E ip (Some b_ok) t s =
                 (\<lparr>status = 404, body = ErrorBody ''Product not found''\<rparr>, s)) \<and>
            (ident \<in> id_p ` set (products s) \<longrightarrow>
               (\<exists>k < length (products s).
                  id_p (products s ! k) = ident \<and>
                  (\<forall>j < k. id_p (products s ! j) \<noteq> ident) \<and>
                  PUT E ip (Some b_ok) t s =
                    (\<lparr>status = 200, body = ProductBody
                        ((products s ! k)\<lparr>name := JStr n100, description := JStr d500,
                           price := JNum x, image_p := or_undefined i, updatedAt := t\<rparr>)\<rparr>,
                     s\<lparr>products := (products s)[k :=
                        (products s ! k)\<lparr>name := JStr n100, description := JStr d500,
                           price := JNum x, image_p := or_undefined i, updatedAt := t\<rparr>]\<rparr>)))"
  proof (intro allI impI conjI)
    fix ip ident assume p: "parseInt ip = Some ident"
    show "PUT E ip (Some b_name) t s =
              (\<lparr>status = 400, body = ErrorBody ''Name must be 100 characters or less''\<rparr>, s)"
      by (rule PUT_invalid [OF p assms(7) long_n])
    show "PUT E ip (Some b_desc) t s =
              (\<lparr>status = 400, body = ErrorBody ''Description must be 500 characters or less''\<rparr>,
               s)"
      by (rule PUT_invalid [OF p assms(8) long_d])
    {
      assume "ident \<notin> id_p ` set (products s)"
      then show "PUT E ip (Some b_ok) t s =
                 (\<lparr>status = 404, body = ErrorBody ''Product not found''\<rparr>, s)"
        by (rule PUT_valid_unknown [OF p assms(6) ok])
    }
    {
      assume "ident \<in> id_p ` set (products s)"
      from findIndex_first [OF this] obtain k where
        k: "findIndex (\<lambda>q. id_p q = ident) (products s) = Some k" and
        kl: "k < length (products s)" and kid: "id_p (products s ! k) = ident" and
        first: "\<forall>j < k. id_p (products s ! j) \<noteq> ident"
        by blast
      from PUT_valid [OF p assms(6) ok, of t s] k
      have "PUT E ip (Some b_ok) t s =
                    (\<lparr>status = 200, body = ProductBody
                        ((products s ! k)\<lparr>name := JStr n100, description := JStr d500,
                           price := JNum x, image_p := or_undefined i, updatedAt := t\<rparr>)\<rparr>,
                     s\<lparr>products := (products s)[k :=
                        (products s ! k)\<lparr>name := JStr n100, description := JStr d500,
                           price := JNum x, image_p := or_undefined i, updatedAt := t\<rparr>]\<rparr>)"
        by simp
      with kl kid first show "\<exists>k < length (products s).
                  id_p (products s ! k) = ident \<and>
                  (\<forall>j < k. id_p (products s ! j) \<noteq> ident) \<and>
                  PUT E ip (Some b_ok) t s =
                    (\<lparr>status = 200, body = ProductBody
                        ((products s ! k)\<lparr>name := JStr n100, description := JStr d500,
                           price := JNum x, image_p := or_undefined i, updatedAt := t\<rparr>)\<rparr>,
                     s\<lparr>products := (products s)[k :=
                        (products s ! k)\<lparr>name := JStr n100, description := JStr d500,
                           price := JNum x, image_p := or_undefined i, updatedAt := t\<rparr>]\<rparr>)"
        by blast
    }
  qed
  from create create_n create_d update show ?thesis by blast
qed

text \<open>
  The boundaries on the initial store, with strings of 100, 101, 500 and 501 letters,
  for the ids 2 (present) and 99 (absent).
\<close>

theorem C5_witness:
  "map id_p (products (snd (POST plain_engine
      (Some (body_with (JStr (replicate 100 CHR ''n'')) (JStr (replicate 500 CHR ''d''))))
      5 6 (initial_store 1 2 3 4)))) = [1, 2, 3] \<and>
   status (fst (POST plain_engine
      (Some (body_with (JStr (replicate 100 CHR ''n'')) (JStr (replicate 500 CHR ''d''))))
      5 6 (initial_store 1 2 3 4))) = 201 \<and>
   POST plain_engine
      (Some (body_with (JStr (replicate 101 CHR ''n'')) (JStr (replicate 500 CHR ''d''))))
      5 6 (initial_store 1 2 3 4) =
     (\<lparr>status = 400, body = ErrorBody ''Name must be 100 characters or less''\<rparr>,
      initial_store 1 2 3 4) \<and>
   POST plain_engine
      (Some (body_with (JStr (replicate 100 CHR ''n'')) (JStr (replicate 501 CHR ''d''))))
      5 6 (initial_store 1 2 3 4) =
     (\<lparr>status = 400, body = ErrorBody ''Description must be 500 characters or less''\<rparr>,
      initial_store 1 2 3 4) \<and>
   PUT plain_engine ''2''
      (Some (body_with (JStr (replicate 101 CHR ''n'')) (JStr (replicate 500 CHR ''d''))))
      7 (initial_store 1 2 3 4) =
     (\<lparr>status = 400, body = ErrorBody ''Name must be 100 characters or less''\<rparr>,
      initial_store 1 2 3 4) \<and>
   PUT plain_engine ''2''
      (Some (body_with (JStr (replicate 100 CHR ''n'')) (JStr (replicate 501 CHR ''d''))))
      7 (initial_store 1 2 3 4) =
     (\<lparr>status = 400, body = ErrorBody ''Description must be 500 characters or less''\<rparr>,
      initial_store 1 2 3 4) \<and>
   PUT plain_engine ''99''
      (Some (body_with (JStr (replicate 100 CHR ''n'')) (JStr (replicate 500 CHR ''d''))))
      7 (initial_store 1 2 3 4) =
     (\<lparr>status = 404, body = ErrorBody ''Product not found''\<rparr>, initial_store 1 2 3 4) \<and>
   (\<exists>k < length (products (initial_store 1 2 3 4)).
      id_p (products (initial_store 1 2 3 4) ! k) = 2 \<and>
      PUT plain_engine ''2''
        (Some (body_with (JStr (replicate 100 CHR ''n'')) (JStr (replicate 500 CHR ''d''))))
        7 (initial_store 1 2 3 4) =
       (\<lparr>status = 200, body = ProductBody
           ((products (initial_store 1 2 3 4) ! k)\<lparr>name := JStr (replicate 100 CHR ''n''),
              description := JStr (replicate 500 CHR ''d''), price := JNum (Fin 10),
              image_p := or_undefined JUndefined, updatedAt := 7\<rparr>)\<rparr>,
        (initial_store 1 2 3 4)\<lparr>products := (products (initial_store 1 2 3 4))[k :=
           (products (initial_store 1 2 3 4) ! k)\<lparr>name := JStr (replicate 100 CHR ''n''),
              description := JStr (replicate 500 CHR ''d''), price := JNum (Fin 10),
              image_p := or_undefined JUndefined, updatedAt := 7\<rparr>]\<rparr>))"
proof -
  have l: "length (replicate 100 CHR ''n'') = 100" "length (replicate 500 CHR ''d'') = 500"
          "length (replicate 101 CHR ''n'') = 101" "length (replicate 501 CHR ''d'') = 501"
    by simp_all
  have x: "num_gt (Fin 10) 0" by simp
  have p2: "parseInt ''2'' = Some 2" by code_simp
  have p99: "parseInt ''99'' = Some 99" by code_simp
  have m2: "2 \<in> id_p ` set (products (initial_store 1 2 3 4))"
    by (simp add: initial_store_def)
  have m99: "99 \<notin> id_p ` set (products (initial_store 1 2 3 4))"
    by (simp add: initial_store_def)
  have v: "replicate 500 CHR ''d'' \<noteq> []" "replicate 100 CHR ''n'' \<noteq> []"
          "length (replicate 100 CHR ''n'') \<le> 100"
    by simp_all
  note T = C5_length_boundaries
             [OF l x destructure_body_with destructure_body_with destructure_body_with v,
              of plain_engine 5 6 "initial_store 1 2 3 4" 7]
  from T have created: "POST plain_engine
      (Some (body_with (JStr (replicate 100 CHR ''n'')) (JStr (replicate 500 CHR ''d''))))
      5 6 (initial_store 1 2 3 4) =
      (\<lparr>status = 201, body = ProductBody
          \<lparr>id_p = nextId (initial_store 1 2 3 4), name = JStr (replicate 100 CHR ''n''),
           description = JStr (replicate 500 CHR ''d''), price = JNum (Fin 10),
           image_p = or_undefined JUndefined, createdAt = 5, updatedAt = 6\<rparr>\<rparr>,
       (initial_store 1 2 3 4)\<lparr>products := products (initial_store 1 2 3 4) @
          [\<lparr>id_p = nextId (initial_store 1 2 3 4), name = JStr (replicate 100 CHR ''n''),
            description = JStr (replicate 500 CHR ''d''), price = JNum (Fin 10),
            image_p = or_undefined JUndefined, createdAt = 5, updatedAt = 6\<rparr>],
         nextId := nextId (initial_store 1 2 3 4) + 1\<rparr>)"
    by blast
  have ids: "map id_p (products (snd (POST plain_engine
      (Some (body_with (JStr (replicate 100 CHR ''n'')) (JStr (replicate 500 CHR ''d''))))
      5 6 (initial_store 1 2 3 4)))) = [1, 2, 3]"
    by (subst created) (simp add: initial_store_def)
  have st: "status (fst (POST plain_engine
      (Some (body_with (JStr (replicate 100 CHR ''n'')) (JStr (replicate 500 CHR ''d''))))
      5 6 (initial_store 1 2 3 4))) = 201"
    by (subst created) simp
  from T p2 p99 m2 m99 ids st show ?thesis by blast
qed

section \<open>Failed validation\<close>

text \<open>
  Claim C6. A create or an update answered with status 400 leaves the store (the
  collection with every field of every record, and the counter) exactly as it was.
\<close>

theorem C6_failed_validation_leaves_store:
  "(status (fst (POST E b t1 t2 s)) = 400 \<longrightarrow> snd (POST E b t1 t2 s) = s) \<and>
   (status (fst (PUT E ip b' t s)) = 400 \<longrightarrow> snd (PUT E ip b' t s) = s)"
proof (intro conjI impI)
  assume "status (fst (POST E b t1 t2 s)) = 400"
  then have "status (fst (POST E b t1 t2 s)) \<noteq> 201" by simp
  with POST_failure [of E b t1 t2 s "fst (POST E b t1 t2 s)" "snd (POST E b t1 t2 s)"]
  show "snd (POST E b t1 t2 s) = s" by simp
next
  assume "status (fst (PUT E ip b' t s)) = 400"
  then have "status (fst (PUT E ip b' t s)) \<noteq> 200" by simp
  with PUT_failure [of E ip b' t s "fst (PUT E ip b' t s)" "snd (PUT E ip b' t s)"]
  show "snd (PUT E ip b' t s) = s" by simp
qed

text \<open>
  A create with an empty name and an update with an empty description, on the initial
  store.
\<close>

theorem C6_witness:
  "status (fst (POST plain_engine (Some (body_with (JStr []) (JStr ''B''))) 5 6
                  (initial_store 1 2 3 4))) = 400 \<and>
   snd (POST plain_engine (Some (body_with (JStr []) (JStr ''B''))) 5 6
          (initial_store 1 2 3 4)) = initial_store 1 2 3 4 \<and>
   status (fst (PUT plain_engine ''1'' (Some (body_with (JStr ''A'') (JStr []))) 7
                  (initial_store 1 2 3 4))) = 400 \<and>
   snd (PUT plain_engine ''1'' (Some (body_with (JStr ''A'') (JStr []))) 7
          (initial_store 1 2 3 4)) = initial_store 1 2 3 4"
proof -
  have a: "status (fst (POST plain_engine (Some (body_with (JStr []) (JStr ''B''))) 5 6
                  (initial_store 1 2 3 4))) = 400"
    by code_simp
  have b: "status (fst (PUT plain_engine ''1'' (Some (body_with (JStr ''A'') (JStr []))) 7
                  (initial_store 1 2 3 4))) = 400"
    by code_simp
  from C6_failed_validation_leaves_store
         [of plain_engine "Some (body_with (JStr []) (JStr ''B''))" 5 6 "initial_store 1 2 3 4"
             "''1''" "Some (body_with (JStr ''A'') (JStr []))" 7] a b
  show ?thesis by blast
qed

section \<open>Update\<close>




section \<open>Delete\<close>

text \<open>
  Claim C8. On a store reached from the initial one, a successful delete returns the
  one record that has the id and removes exactly that record; whatever requests
  follow, the list never shows the id again and a further delete of the id is answered
  with 404 "Product not found".
\<close>

theorem C8_delete_removes_for_good:
  assumes "run E rs (initial_store c1 u1 c2 u2) = (resps, s)"
    and "DELETE ip s = (r, s1)" and "status r = 200"
    and "run E rs2 s1 = (resps2, s2)"
  shows "\<exists>ident q.
           parseInt ip = Some ident \<and> id_p q = ident \<and>
           body r = DeletedBody ''Product deleted successfully'' q \<and>
           filter (\<lambda>x. id_p x = ident) (products s) = [q] \<and>
           products s1 = filter (\<lambda>x. id_p x \<noteq> ident) (products s) \<and>
           nextId s1 = nextId s \<and>
           GET s2 = (\<lparr>status = 200, body = ProductsBody (products s2)\<rparr>, s2) \<and>
           ident \<notin> id_p ` set (products s2) \<and>
           (\<forall>ip'. parseInt ip' = Some ident \<longrightarrow>
              DELETE ip' s2 =
                (\<lparr>status = 404, body = ErrorBody ''Product not found''\<rparr>, s2))"
proof -
  from run_step [OF assms(1)] initial_store_inv have inv: "store_inv s" by blast
  then have dist: "distinct (map id_p (products s))" by (simp add: store_inv_def)
  from DELETE_success [OF assms(2,3)] obtain k ident where
    pi: "parseInt ip = Some ident" and
    k: "findIndex (\<lambda>q. id_p q = ident) (products s) = Some k" and
    r: "r = \<lparr>status = 200,
              body = DeletedBody ''Product deleted successfully'' (products s ! k)\<rparr>" and
    s1: "s1 = s\<lparr>products := take k (products s) @ drop (Suc k) (products s)\<rparr>"
    by blast
  from findIndex_SomeD [OF k] have kl: "k < length (products s)"
    and kid: "id_p (products s ! k) = ident" by simp_all
  note F = findIndex_distinct_filter [OF dist k]
  have p1: "products s1 = filter (\<lambda>x. id_p x \<noteq> ident) (products s)" using s1 F by simp
  have gone1: "ident \<notin> id_p ` set (products s1)" using p1 by auto
  have "products s ! k \<in> set (products s)" using kl by simp
  with inv kid have "ident < nextId s" by (auto simp: store_inv_def)
  with s1 have below: "ident < nextId s1" by simp
  have gone2: "ident \<notin> id_p ` set (products s2)"
  proof
    assume "ident \<in> id_p ` set (products s2)"
    then obtain x where x: "x \<in> set (products s2)" "id_p x = ident" by auto
    with run_step [OF assms(4)] have "id_p x \<in> id_p ` set (products s1) \<or> nextId s1 \<le> id_p x"
      by blast
    with x gone1 below show False by auto
  qed
  have again: "\<forall>ip'. parseInt ip' = Some ident \<longrightarrow>
              DELETE ip' s2 =
                (\<lparr>status = 404, body = ErrorBody ''Product not found''\<rparr>, s2)"
  proof (intro allI impI)
    fix ip' assume p: "parseInt ip' = Some ident"
    from gone2 have "findIndex (\<lambda>q. id_p q = ident) (products s2) = None"
      by (auto simp: findIndex_None_iff)
    with p show "DELETE ip' s2 =
                (\<lparr>status = 404, body = ErrorBody ''Product not found''\<rparr>, s2)"
      by (simp add: DELETE_def error_response_def)
  qed
  have g: "GET s2 = (\<lparr>status = 200, body = ProductsBody (products s2)\<rparr>, s2)"
    by (simp add: GET_def)
  from pi kid r F p1 s1 g gone2 again show ?thesis by auto
qed

text \<open>
  Record 4 is deleted after the session of \<open>example_trace\<close>; a create and a list
  follow, and the second delete of 4 fails.
\<close>

theorem C8_witness:
  "status (fst (DELETE ''4'' example_store)) = 200 \<and>
   4 \<notin> id_p ` set (products (snd (run plain_engine [Post (Some example_body) 11 12, Get]
                                     (snd (DELETE ''4'' example_store))))) \<and>
   status (fst (DELETE ''4'' (snd (run plain_engine [Post (Some example_body) 11 12, Get]
                                     (snd (DELETE ''4'' example_store)))))) = 404"
proof -
  let ?del = "DELETE ''4'' example_store"
  let ?rest = "run plain_engine [Post (Some example_body) 11 12, Get] (snd ?del)"
  have h1: "run plain_engine example_trace (initial_store 1 2 3 4) =
              (fst (run plain_engine example_trace (initial_store 1 2 3 4)), example_store)"
    by (simp add: example_store_def)
  have h2: "?del = (fst ?del, snd ?del)" by simp
  have h3: "status (fst ?del) = 200" by code_simp
  have h4: "?rest = (fst ?rest, snd ?rest)" by simp
  have p: "parseInt ''4'' = Some 4" by code_simp
  from C8_delete_removes_for_good [OF h1 h2 h3 h4] obtain ident where
    i: "parseInt ''4'' = Some ident" and
    gone: "ident \<notin> id_p ` set (products (snd ?rest))" and
    again: "\<forall>ip'. parseInt ip' = Some ident \<longrightarrow>
              DELETE ip' (snd ?rest) =
                (\<lparr>status = 404, body = ErrorBody ''Product not found''\<rparr>, snd ?rest)"
    by blast
  from i p have ident: "ident = 4" by simp
  from again i have "DELETE ''4'' (snd ?rest) =
                (\<lparr>status = 404, body = ErrorBody ''Product not found''\<rparr>, snd ?rest)"
    by blast
  then have "status (fst (DELETE ''4'' (snd ?rest))) = 404" by (simp del: run.simps)
  with h3 gone ident show ?thesis by blast
qed

section \<open>The id path parameter\<close>

text \<open>
  Claim C9 does not hold of the code. A parameter on which \<^verbatim>\<open>parseInt\<close> yields
  \<^verbatim>\<open>NaN\<close> is answered with 400 "Invalid product ID" and the store is left alone
  (\<open>unparsable_id_rejected\<close>); but \<^verbatim>\<open>parseInt\<close> reads the leading digits and ignores
  the rest, so the parameter \<^verbatim>\<open>1abc\<close>, which is no integer, passes the \<^verbatim>\<open>isNaN\<close>
  check as 1: the delete removes record 1 and the update overwrites it, both with
  status 200.
\<close>

theorem C9_lenient_id_parsing:
  "parseInt ''1abc'' = Some 1 \<and>
   status (fst (DELETE ''1abc'' (initial_store 1 2 3 4))) = 200 \<and>
   map id_p (products (snd (DELETE ''1abc'' (initial_store 1 2 3 4)))) = [2] \<and>
   status (fst (PUT plain_engine ''1abc'' (Some example_body) 5 (initial_store 1 2 3 4))) = 200 \<and>
   map name (products (snd (PUT plain_engine ''1abc'' (Some example_body) 5
                              (initial_store 1 2 3 4)))) = [JStr ''A'', JStr ''Denim Jeans'']"
  by code_simp

section \<open>Values that are not strings\<close>

text \<open>
  Claim C10, as stated, fails: the length check applies to whatever has a
  \<^verbatim>\<open>length\<close>, so an array of 101 elements (truthy, and not a string) as name is
  rejected with the 400 message about the name's length.
\<close>

theorem C10_counterexample:
  "truthy (JArr (replicate 101 JNull)) \<and>
   POST plain_engine (Some (body_with (JArr (replicate 101 JNull)) (JStr ''B''))) 5 6
        (initial_store 1 2 3 4) =
     (\<lparr>status = 400, body = ErrorBody ''Name must be 100 characters or less''\<rparr>,
      initial_store 1 2 3 4)"
  by (simp add: POST_def body_with_def own_def validation_def length_exceeds_def
        error_response_def)

text \<open>
  Claim C10, amended. Validation never asks whether name or description is a string;
  of a truthy value it asks only whether \<^verbatim>\<open>value.length > limit\<close> holds (limit 100 for
  name, 500 for description). With a positive price and truthy values, strings or not:
  when both comparisons are false, create answers 201 and stores the two values as
  they are, and update stores them in the first record with the id (404 when there is
  none); when the comparison is true for the name (under any truthy description),
  create and update answer the 400 message about the name's length; when it is false
  for the name and true for the description, the one about the description's length.
  The comparison is false for every number and boolean and for an object without a
  \<^verbatim>\<open>length\<close>; for an array it is true exactly when the array has more elements than
  the limit; for an object with a \<^verbatim>\<open>length\<close> it is the comparison of that property
  with the limit.
\<close>

theorem C10_only_length_is_checked:
  assumes "num_gt x 0"
    and "truthy n" and "length_exceeds E n 100 = Some False"
    and "truthy d" and "length_exceeds E d 500 = Some False"
    and "truthy n'" and "length_exceeds E n' 100 = Some True"
    and "truthy d'" and "length_exceeds E d' 500 = Some True"
    and "truthy dn"
    and "destructure b = Some (n, d, JNum x, i)"
    and "destructure b_name = Some (n', dn, JNum x, i)"
    and "destructure b_desc = Some (n, d', JNum x, i)"
  shows "POST E (Some b) t1 t2 s =
           (\<lparr>status = 201, body = ProductBody
               \<lparr>id_p = nextId s, name = n, description = d, price = JNum x,
                image_p = or_undefined i, createdAt = t1, updatedAt = t2\<rparr>\<rparr>,
            s\<lparr>products := products s @
               [\<lparr>id_p = nextId s, name = n, description = d, price = JNum x,
                 image_p = or_undefined i, createdAt = t1, updatedAt = t2\<rparr>],
              nextId := nextId s + 1\<rparr>) \<and>
         POST E (Some b_name) t1 t2 s =
           (\<lparr>status = 400, body = ErrorBody ''Name must be 100 characters or less''\<rparr>, s) \<and>
         POST E (Some b_desc) t1 t2 s =
           (\<lparr>status = 400, body = ErrorBody ''Description must be 500 characters or less''\<rparr>, s) \<and>
         (\<forall>ip ident. parseInt ip = Some ident \<longrightarrow>
            PUT E ip (Some b_name) t s =
              (\<lparr>status = 400, body = ErrorBody ''Name must be 100 characters or less''\<rparr>, s) \<and>
            PUT E ip (Some b_desc) t s =
              (\<lparr>status = 400, body = ErrorBody ''Description must be 500 characters or less''\<rparr>,
               s) \<and>
            (ident \<notin> id_p ` set (products s) \<longrightarrow>
               PUT E ip (Some b) t s =
                 (\<lparr>status = 404, body = ErrorBody ''Product not found''\<rparr>, s)) \<and>
            (ident \<in> id_p ` set (products s) \<longrightarrow>
               (\<exists>k < length (products s).
                  id_p (products s ! k) = ident \<and>
                  (\<forall>j < k. id_p (products s ! j) \<noteq> ident) \<and>
                  PUT E ip (Some b) t s =
                    (\<lparr>status = 200, body = ProductBody
                        ((products s ! k)\<lparr>name := n, description := d,
                           price := JNum x, image_p := or_undefined i, updatedAt := t\<rparr>)\<rparr>,
                     s\<lparr>products := (products s)[k :=
                        (products s ! k)\<lparr>name := n, description := d,
                           price := JNum x, image_p := or_undefined i, updatedAt := t\<rparr>]\<rparr>)))) \<and>
         length_exceeds E (JNum y) k = Some False \<and>
         length_exceeds E (JBool c) k = Some False \<and>
         length_exceeds E (JArr xs) k = Some (k < of_nat (length xs)) \<and>
         (map_of kvs ''length'' = None \<longrightarrow> length_exceeds E (JObj kvs) k = Some False) \<and>
         (\<forall>v. map_of kvs ''length'' = Some v \<longrightarrow>
            length_exceeds E (JObj kvs) k = greater_than E v k)"
proof -
  have ok: "validation E n d (JNum x) = Valid"
    by (simp add: validation_outcome [OF assms(2,4,1)] assms(3,5))
  have long_n: "validation E n' dn (JNum x) = Invalid ''Name must be 100 characters or less''"
    by (simp add: validation_outcome [OF assms(6,10,1)] assms(7))
  have long_d: "validation E n d' (JNum x) =
                  Invalid ''Description must be 500 characters or less''"
    by (simp add: validation_outcome [OF assms(2,8,1)] assms(3,9))
  note create = POST_valid [OF assms(11) ok, of t1 t2 s]
    and create_n = POST_invalid [OF assms(12) long_n, of t1 t2 s]
    and create_d = POST_invalid [OF assms(13) long_d, of t1 t2 s]
  have update: "\<forall>ip ident. parseInt ip = Some ident \<longrightarrow>
            PUT E ip (Some b_name) t s =
              (\<lparr>status = 400, body = ErrorBody ''Name must be 100 characters or less''\<rparr>, s) \<and>
            PUT E ip (Some b_desc) t s =
              (\<lparr>status = 400, body = ErrorBody ''Description must be 500 characters or less''\<rparr>,
               s) \<and>
            (ident \<notin> id_p ` set (products s) \<longrightarrow>
               PUT E ip (Some b) t s =
                 (\<lparr>status = 404, body = ErrorBody ''Product not found''\<rparr>, s)) \<and>
            (ident \<in> id_p ` set (products s) \<longrightarrow>
               (\<exists>k < length (products s).
                  id_p (products s ! k) = ident \<and>
                  (\<forall>j < k. id_p (products s ! j) \<noteq> ident) \<and>
                  PUT E ip (Some b) t s =
                    (\<lparr>status = 200, body = ProductBody
                        ((products s ! k)\<lparr>name := n, description := d,
                           price := JNum x, image_p := or_undefined i, updatedAt := t\<rparr>)\<rparr>,
                     s\<lparr>products := (products s)[k :=
                        (products s ! k)\<lparr>name := n, description := d,
                           price := JNum x, image_p := or_undefined i, updatedAt := t\<rparr>]\<rparr>)))"
  proof (intro allI impI conjI)
    fix ip ident assume p: "parseInt ip = Some ident"
    show "PUT E ip (Some b_name) t s =
              (\<lparr>status = 400, body = ErrorBody ''Name must be 100 characters or less''\<rparr>, s)"
      by (rule PUT_invalid [OF p assms(12) long_n])
    show "PUT E ip (Some b_desc) t s =
              (\<lparr>status = 400, body = ErrorBody ''Description must be 500 characters or less''\<rparr>,
               s)"
      by (rule PUT_invalid [OF p assms(13) long_d])
    {
      assume "ident \<notin> id_p ` set (products s)"
      then show "PUT E ip (Some b) t s =
                 (\<lparr>status = 404, body = ErrorBody ''Product not found''\<rparr>, s)"
        by (rule PUT_valid_unknown [OF p assms(11) ok])
    }
    {
      assume "ident \<in> id_p ` set (products s)"
      from findIndex_first [OF this] obtain k where
        k: "findIndex (\<lambda>q. id_p q = ident) (products s) = Some k" and
        kl: "k < length (products s)" and kid: "id_p (products s ! k) = ident" and
        first: "\<forall>j < k. id_p (products s ! j) \<noteq> ident"
        by blast
      from PUT_valid [OF p assms(11) ok, of t s] k
      have "PUT E ip (Some b) t s =
                    (\<lparr>status = 200, body = ProductBody
                        ((products s ! k)\<lparr>name := n, description := d,
                           price := JNum x, image_p := or_undefined i, updatedAt := t\<rparr>)\<rparr>,
                     s\<lparr>products := (products s)[k :=
                        (products s ! k)\<lparr>name := n, description := d,
                           price := JNum x, image_p := or_undefined i, updatedAt := t\<rparr>]\<rparr>)"
        by simp
      with kl kid first show "\<exists>k < length (products s).
                  id_p (products s ! k) = ident \<and>
                  (\<forall>j < k. id_p (products s ! j) \<noteq> ident) \<and>
                  PUT E ip (Some b) t s =
                    (\<lparr>status = 200, body = ProductBody
                        ((products s ! k)\<lparr>name := n, description := d,
                           price := JNum x, image_p := or_undefined i, updatedAt := t\<rparr>)\<rparr>,
                     s\<lparr>products := (products s)[k :=
                        (products s ! k)\<lparr>name := n, description := d,
                           price := JNum x, image_p := or_undefined i, updatedAt := t\<rparr>]\<rparr>)"
        by blast
    }
  qed
  have classes: "length_exceeds E (JNum y) k = Some False \<and>
         length_exceeds E (JBool c) k = Some False \<and>
         length_exceeds E (JArr xs) k = Some (k < of_nat (length xs)) \<and>
         (map_of kvs ''length'' = None \<longrightarrow> length_exceeds E (JObj kvs) k = Some False) \<and>
         (\<forall>v. map_of kvs ''length'' = Some v \<longrightarrow>
            length_exceeds E (JObj kvs) k = greater_than E v k)"
    by (simp add: length_exceeds_JNum length_exceeds_JBool length_exceeds_JArr
          length_exceeds_JObj)
  from create create_n create_d update classes show ?thesis by blast
qed

text \<open>
  The number 123 as name and the object \<^verbatim>\<open>{length: '50'}\<close> as description are
  stored as they are; arrays of 101 and 501 elements are rejected.
\<close>

theorem C10_witness:
  "length_exceeds plain_engine (JNum (Fin 123)) 100 = Some False \<and>
   length_exceeds plain_engine (JObj [(''length'', JStr ''50'')]) 500 = Some False \<and>
   length_exceeds plain_engine (JArr (replicate 101 JNull)) 100 = Some True \<and>
   length_exceeds plain_engine (JArr (replicate 501 JNull)) 500 = Some True \<and>
   map name (products (snd (POST plain_engine
      (Some (body_with (JNum (Fin 123)) (JObj [(''length'', JStr ''50'')]))) 5 6
      (initial_store 1 2 3 4)))) =
     [JStr ''Classic Cotton T-Shirt'', JStr ''Denim Jeans'', JNum (Fin 123)] \<and>
   map description (products (snd (POST plain_engine
      (Some (body_with (JNum (Fin 123)) (JObj [(''length'', JStr ''50'')]))) 5 6
      (initial_store 1 2 3 4)))) ! 2 = JObj [(''length'', JStr ''50'')] \<and>
   status (fst (POST plain_engine
      (Some (body_with (JNum (Fin 123)) (JObj [(''length'', JStr ''50'')]))) 5 6
      (initial_store 1 2 3 4))) = 201 \<and>
   POST plain_engine (Some (body_with (JArr (replicate 101 JNull)) (JBool True))) 5 6
      (initial_store 1 2 3 4) =
     (\<lparr>status = 400, body = ErrorBody ''Name must be 100 characters or less''\<rparr>,
      initial_store 1 2 3 4) \<and>
   POST plain_engine (Some (body_with (JNum (Fin 123)) (JArr (replicate 501 JNull)))) 5 6
      (initial_store 1 2 3 4) =
     (\<lparr>status = 400, body = ErrorBody ''Description must be 500 characters or less''\<rparr>,
      initial_store 1 2 3 4) \<and>
   PUT plain_engine ''2'' (Some (body_with (JArr (replicate 101 JNull)) (JBool True))) 7
      (initial_store 1 2 3 4) =
     (\<lparr>status = 400, body = ErrorBody ''Name must be 100 characters or less''\<rparr>,
      initial_store 1 2 3 4) \<and>
   PUT plain_engine ''99''
      (Some (body_with (JNum (Fin 123)) (JObj [(''length'', JStr ''50'')]))) 7
      (initial_store 1 2 3 4) =
     (\<lparr>status = 404, body = ErrorBody ''Product not found''\<rparr>, initial_store 1 2 3 4) \<and>
   (\<exists>k < length (products (initial_store 1 2 3 4)).
      id_p (products (initial_store 1 2 3 4) ! k) = 2 \<and>
      PUT plain_engine ''2''
        (Some (body_with (JNum (Fin 123)) (JObj [(''length'', JStr ''50'')]))) 7
        (initial_store 1 2 3 4) =
       (\<lparr>status = 200, body = ProductBody
           ((products (initial_store 1 2 3 4) ! k)\<lparr>name := JNum (Fin 123),
              description := JObj [(''length'', JStr ''50'')], price := JNum (Fin 10),
              image_p := or_undefined JUndefined, updatedAt := 7\<rparr>)\<rparr>,
        (initial_store 1 2 3 4)\<lparr>products := (products (initial_store 1 2 3 4))[k :=
           (products (initial_store 1 2 3 4) ! k)\<lparr>name := JNum (Fin 123),
              description := JObj [(''length'', JStr ''50'')], price := JNum (Fin 10),
              image_p := or_undefined JUndefined, updatedAt := 7\<rparr>]\<rparr>)) \<and>
   length_exceeds plain_engine (JObj []) 100 = Some False"
proof -
  have x: "num_gt (Fin 10) 0" by simp
  have n: "truthy (JNum (Fin 123))"
    "length_exceeds plain_engine (JNum (Fin 123)) 100 = Some False"
    by (simp_all add: length_exceeds_def)
  have d: "truthy (JObj [(''length'', JStr ''50'')])"
    "length_exceeds plain_engine (JObj [(''length'', JStr ''50'')]) 500 = Some False"
    by (simp_all add: length_exceeds_def own_def plain_engine_def)
  have n': "truthy (JArr (replicate 101 JNull))"
    "length_exceeds plain_engine (JArr (replicate 101 JNull)) 100 = Some True"
    by (simp_all add: length_exceeds_def)
  have d': "truthy (JArr (replicate 501 JNull))"
    "length_exceeds plain_engine (JArr (replicate 501 JNull)) 500 = Some True"
    by (simp_all add: length_exceeds_def)
  have dn: "truthy (JBool True)" by simp
  have p2: "parseInt ''2'' = Some 2" by code_simp
  have p99: "parseInt ''99'' = Some 99" by code_simp
  have m2: "2 \<in> id_p ` set (products (initial_store 1 2 3 4))"
    by (simp add: initial_store_def)
  have m99: "99 \<notin> id_p ` set (products (initial_store 1 2 3 4))"
    by (simp add: initial_store_def)
  have e: "map_of ([] :: (string \<times> jsvalue) list) ''length'' = None" by simp
  note T = C10_only_length_is_checked
             [OF x n d n' d' dn destructure_body_with destructure_body_with
                 destructure_body_with,
              of 5 6 "initial_store 1 2 3 4" 7 "Fin 123" 100 True "[]" "[]"]
  from T have created: "POST plain_engine
      (Some (body_with (JNum (Fin 123)) (JObj [(''length'', JStr ''50'')]))) 5 6
      (initial_store 1 2 3 4) =
      (\<lparr>status = 201, body = ProductBody
          \<lparr>id_p = nextId (initial_store 1 2 3 4), name = JNum (Fin 123),
           description = JObj [(''length'', JStr ''50'')], price = JNum (Fin 10),
           image_p = or_undefined JUndefined, createdAt = 5, updatedAt = 6\<rparr>\<rparr>,
       (initial_store 1 2 3 4)\<lparr>products := products (initial_store 1 2 3 4) @
          [\<lparr>id_p = nextId (initial_store 1 2 3 4), name = JNum (Fin 123),
            description = JObj [(''length'', JStr ''50'')], price = JNum (Fin 10),
            image_p = or_undefined JUndefined, createdAt = 5, updatedAt = 6\<rparr>],
         nextId := nextId (initial_store 1 2 3 4) + 1\<rparr>)"
    by blast
  have names: "map name (products (snd (POST plain_engine
      (Some (body_with (JNum (Fin 123)) (JObj [(''length'', JStr ''50'')]))) 5 6
      (initial_store 1 2 3 4)))) =
     [JStr ''Classic Cotton T-Shirt'', JStr ''Denim Jeans'', JNum (Fin 123)]"
    by (subst created) (simp add: initial_store_def)
  have descr: "map description (products (snd (POST plain_engine
      (Some (body_with (JNum (Fin 123)) (JObj [(''length'', JStr ''50'')]))) 5 6
      (initial_store 1 2 3 4)))) ! 2 = JObj [(''length'', JStr ''50'')]"
    by (subst created) (simp add: initial_store_def)
  have st: "status (fst (POST plain_engine
      (Some (body_with (JNum (Fin 123)) (JObj [(''length'', JStr ''50'')]))) 5 6
      (initial_store 1 2 3 4))) = 201"
    by (subst created) simp
  from T p2 p99 m2 m99 e n(2) d(2) n'(2) d'(2) names descr st show ?thesis by blast
qed

end
